theory Spec2Isabelle
  imports Complex_Main "HOL-Library.Log_Nat"
begin

section \<open>Numbers, dictionaries and failures of the Python program\<close>

text \<open>
  The estimator (\<^verbatim>\<open>app_cost_only.py\<close>) is a script of closed-form arithmetic over
  rate tables. Its numbers are Python \<^verbatim>\<open>int\<close> and \<^verbatim>\<open>float\<close> values, and they
  are embedded twice.

  Where a statement does not depend on how binary64 arithmetic rounds (the shape of a
  formula, an inequality with a margin, which key raises, what the handler assembles),
  numbers are \<^typ>\<open>real\<close>: a decimal literal such as \<^verbatim>\<open>0.075\<close> denotes exactly that
  decimal fraction and the operators are the exact ones. Where a statement is about a
  value to the last bit (the site difficulty of a given soil and access, the sum of the
  risk components against the base cost times 0.145), the statements of the source are
  embedded a second time over binary64, in the definitions whose names end in \<open>_f64\<close>:
  there every literal and every operation is rounded as the next section says. The worker
  count, which is only compared with integer bounds, is an \<^typ>\<open>int\<close>.

  A dictionary literal is the association list of its items in source order, and
  subscription \<^verbatim>\<open>d[k]\<close> either yields the stored value or raises \<^verbatim>\<open>KeyError(k)\<close>.
  A raised exception is the left injection of the result type; nothing in the script
  catches one, so the first exception ends the computation.
\<close>

datatype py_error = KeyError string | ZeroDivisionError | IndexError

definition getitem :: "(string \<times> 'v) list \<Rightarrow> string \<Rightarrow> py_error + 'v" where
  "getitem d k = (case map_of d k of None \<Rightarrow> Inl (KeyError k) | Some v \<Rightarrow> Inr v)"

definition keys :: "(string \<times> 'v) list \<Rightarrow> string list" where
  "keys d = map fst d"

text \<open>Sequencing: the continuation runs only if no exception was raised before it.\<close>

definition and_then :: "py_error + 'a \<Rightarrow> ('a \<Rightarrow> py_error + 'b) \<Rightarrow> py_error + 'b" where
  "and_then r f = (case r of Inl e \<Rightarrow> Inl e | Inr v \<Rightarrow> f v)"

text \<open>True division \<^verbatim>\<open>a / b\<close> raises \<^verbatim>\<open>ZeroDivisionError\<close> on a zero divisor.\<close>

definition truediv :: "real \<Rightarrow> real \<Rightarrow> py_error + real" where
  "truediv a b = (if b = 0 then Inl ZeroDivisionError else Inr (a / b))"

text \<open>The builtin \<^verbatim>\<open>sum\<close> adds the items to \<^verbatim>\<open>0\<close> from left to right.\<close>

definition py_sum :: "real list \<Rightarrow> real" where
  "py_sum xs = foldl (+) 0 xs"

section \<open>Binary64 arithmetic\<close>

text \<open>
  A Python \<^verbatim>\<open>float\<close> is an IEEE 754 binary64 number: a multiple of a power of two with a
  significand of 53 bits. A finite double is embedded as the real number it denotes. The
  result of an operation is the exact result rounded to the nearest double, a tie going to
  the double whose significand is even.

  \<open>exponent x\<close> is the integer \<open>e\<close> with \<open>2 ^ e \<le> \<bar>x\<bar> < 2 ^ (e + 1)\<close>, computed from the
  bit length of the integer part of \<open>\<bar>x\<bar>\<close> or of its reciprocal. \<open>rne\<close> rounds to the nearest
  integer, ties to even. \<open>round64\<close> rounds to a multiple of \<open>2 ^ (e - 52)\<close>; below
  \<open>2 ^ (- 1022)\<close> the spacing of the doubles stays \<open>2 ^ (- 1074)\<close>. Overflow to infinity,
  which takes a result of magnitude \<open>2 ^ 1024\<close> or more, is not modelled, and nothing below
  comes near it: a site difficulty is below 3, and a risk component and the sum of the
  three are smaller than the base cost they are taken of.
\<close>

definition exponent :: "real \<Rightarrow> int" where
  "exponent x = (if 1 \<le> \<bar>x\<bar> then bitlen \<lfloor>\<bar>x\<bar>\<rfloor> - 1 else - bitlen (\<lceil>1 / \<bar>x\<bar>\<rceil> - 1))"

definition rne :: "real \<Rightarrow> int" where
  "rne y = (let f = \<lfloor>y\<rfloor>; d = y - of_int f in
            if d < 1 / 2 then f else if 1 / 2 < d then f + 1
            else if even f then f else f + 1)"

definition round64 :: "real \<Rightarrow> real" where
  "round64 x = (if x = 0 then 0
                else let e = max (exponent x - 52) (- 1074)
                     in of_int (rne (x / 2 powi e)) * 2 powi e)"

text \<open>
  The operators \<^verbatim>\<open>*\<close> and \<^verbatim>\<open>+\<close> on doubles, and a decimal literal read as a double: a
  table of literals becomes the table of the doubles nearest to them.
\<close>

definition fmul :: "real \<Rightarrow> real \<Rightarrow> real" where
  "fmul a b = round64 (a * b)"

definition fadd :: "real \<Rightarrow> real \<Rightarrow> real" where
  "fadd a b = round64 (a + b)"

definition as_floats :: "(string \<times> real) list \<Rightarrow> (string \<times> real) list" where
  "as_floats d = map (\<lambda>(k, v). (k, round64 v)) d"

text \<open>
  The builtin \<^verbatim>\<open>sum\<close> over doubles: from \<^verbatim>\<open>0\<close>, left to right, each addition rounded.
  (CPython from 3.12 on compensates the rounding errors of float items instead. The bound
  proved of this sum below is proved of the exact sum of the items as well, and the values
  it is shown to take are also those of the exact sum rounded once.)
\<close>

definition py_sum_f64 :: "real list \<Rightarrow> real" where
  "py_sum_f64 xs = foldl fadd 0 xs"

section \<open>Rate tables\<close>

definition MATERIAL_RATES :: "(string \<times> (string \<times> real) list) list" where
  "MATERIAL_RATES =
    [(''Residential'', [(''cement'', 0.5), (''blocks'', 10), (''steel'', 0.025),
                        (''sand'', 0.05), (''granite'', 0.03)]),
     (''Commercial'', [(''cement'', 0.7), (''blocks'', 15), (''steel'', 0.04),
                       (''sand'', 0.07), (''granite'', 0.05)]),
     (''Industrial'', [(''cement'', 1.0), (''blocks'', 20), (''steel'', 0.06),
                       (''sand'', 0.10), (''granite'', 0.08)])]"

definition SHAPE_COMPLEXITY :: "(string \<times> real) list" where
  "SHAPE_COMPLEXITY =
    [(''Rectangular'', 1.0), (''Square'', 1.05), (''L-Shaped'', 1.15),
     (''U-Shaped'', 1.2), (''Circular'', 1.25)]"

definition PLANT_RATES :: "(string \<times> real) list" where
  "PLANT_RATES = [(''Residential'', 0.08), (''Commercial'', 0.12), (''Industrial'', 0.18)]"

definition LABOR_PRODUCTIVITY_RATES :: "(string \<times> (string \<times> real) list) list" where
  "LABOR_PRODUCTIVITY_RATES =
    [(''Residential'', [(''foundation'', 1.2), (''structural'', 2.0), (''finishing'', 1.5)]),
     (''Commercial'', [(''foundation'', 1.5), (''structural'', 2.5), (''finishing'', 2.0)]),
     (''Industrial'', [(''foundation'', 2.0), (''structural'', 3.0), (''finishing'', 2.5)])]"

definition EFFICIENCY_FACTORS :: "(string \<times> (string \<times> real) list) list" where
  "EFFICIENCY_FACTORS =
    [(''crew_size'', [(''Small'', 0.9), (''Medium'', 1.0), (''Large'', 1.1)]),
     (''weather'', [(''Good'', 1.0), (''Average'', 0.9), (''Poor'', 0.8)])]"

definition RISK_FACTORS :: "(string \<times> real) list" where
  "RISK_FACTORS = [(''prelim'', 0.05), (''cont'', 0.075), (''design'', 0.02)]"

definition CIRCULATION_SPACE :: real where
  "CIRCULATION_SPACE = 0.20"

definition STANDARD_WORK_HOURS :: real where
  "STANDARD_WORK_HOURS = 8"

definition OVERHEAD_PROFIT :: real where
  "OVERHEAD_PROFIT = 0.15"

section \<open>The three calculator functions\<close>

text \<open>
  \<^verbatim>\<open>calculate_gfa(length, breadth, storeys, shape)\<close>: the base area is computed first,
  then the shape is looked up.
\<close>

definition calculate_gfa :: "real \<Rightarrow> real \<Rightarrow> real \<Rightarrow> string \<Rightarrow> py_error + real" where
  "calculate_gfa len breadth storeys shape =
     (let base_area = len * breadth * storeys in
      and_then (getitem SHAPE_COMPLEXITY shape) (\<lambda>shape_multiplier.
      Inr (base_area * shape_multiplier)))"

text \<open>
  \<^verbatim>\<open>calculate_site_difficulty(soil, access)\<close>: two local tables; the soil is looked up
  before the access, as the left operand of the product is evaluated first.
\<close>

definition soil_map :: "(string \<times> real) list" where
  "soil_map = [(''Rocky'', 1.5), (''Sandy'', 1.2), (''Clay'', 1.0)]"

definition access_map :: "(string \<times> real) list" where
  "access_map = [(''Poor'', 1.4), (''Average'', 1.1), (''Good'', 1.0)]"

definition calculate_site_difficulty :: "string \<Rightarrow> string \<Rightarrow> py_error + real" where
  "calculate_site_difficulty soil access =
     and_then (getitem soil_map soil) (\<lambda>s.
     and_then (getitem access_map access) (\<lambda>a.
     Inr (s * a)))"

text \<open>The same function over binary64: the entries of both tables and the product are doubles.\<close>

definition calculate_site_difficulty_f64 :: "string \<Rightarrow> string \<Rightarrow> py_error + real" where
  "calculate_site_difficulty_f64 soil access =
     and_then (getitem (as_floats soil_map) soil) (\<lambda>s.
     and_then (getitem (as_floats access_map) access) (\<lambda>a.
     Inr (fmul s a)))"

text \<open>
  \<^verbatim>\<open>calculate_labor_hours(gfa, building_type, crew_size, weather_condition)\<close>. Each of
  its three assignments is a definition of its own, named after the variable assigned;
  the function evaluates them in source order and then divides.
\<close>

definition base_hours :: "real \<Rightarrow> string \<Rightarrow> py_error + real" where
  "base_hours gfa building_type =
     and_then (and_then (getitem LABOR_PRODUCTIVITY_RATES building_type)
                 (\<lambda>d. getitem d ''foundation'')) (\<lambda>foundation.
     and_then (and_then (getitem LABOR_PRODUCTIVITY_RATES building_type)
                 (\<lambda>d. getitem d ''structural'')) (\<lambda>structural.
     and_then (and_then (getitem LABOR_PRODUCTIVITY_RATES building_type)
                 (\<lambda>d. getitem d ''finishing'')) (\<lambda>finishing.
     Inr (py_sum [foundation, structural, finishing] * gfa))))"

definition crew_efficiency :: "int \<Rightarrow> py_error + real" where
  "crew_efficiency crew_size =
     and_then (getitem EFFICIENCY_FACTORS ''crew_size'') (\<lambda>d.
     getitem d (if 15 \<le> crew_size \<and> crew_size \<le> 30 then ''Medium''
                else if crew_size > 30 then ''Large''
                else ''Small''))"

definition weather_efficiency :: "string \<Rightarrow> py_error + real" where
  "weather_efficiency weather_condition =
     and_then (getitem EFFICIENCY_FACTORS ''weather'') (\<lambda>d.
     getitem d weather_condition)"

definition calculate_labor_hours :: "real \<Rightarrow> string \<Rightarrow> int \<Rightarrow> string \<Rightarrow> py_error + real" where
  "calculate_labor_hours gfa building_type crew_size weather_condition =
     and_then (base_hours gfa building_type) (\<lambda>bh.
     and_then (crew_efficiency crew_size) (\<lambda>ce.
     and_then (weather_efficiency weather_condition) (\<lambda>we.
     truediv bh (ce * we))))"

section \<open>The submit handler\<close>

text \<open>
  The body of \<^verbatim>\<open>if submit_button:\<close> is straight-line code over the values of the form.
  Each assignment whose value a property speaks about is a definition named after the
  variable assigned, with the variables it reads as parameters. They are given from the
  last statement to the first, so that every parameter can carry the name the script
  uses; \<open>on_submit\<close> below runs them in source order.
\<close>

text \<open>Lines 246 to 250: the dictionary \<^verbatim>\<open>risk_components\<close>.\<close>

definition risk_components :: "real \<Rightarrow> py_error + (string \<times> real) list" where
  "risk_components base_cost =
     and_then (getitem RISK_FACTORS ''cont'') (\<lambda>cont.
     and_then (getitem RISK_FACTORS ''prelim'') (\<lambda>prelim.
     and_then (getitem RISK_FACTORS ''design'') (\<lambda>design.
     Inr [(''Contingencies'', base_cost * cont),
          (''Preliminaries'', base_cost * prelim),
          (''Design Risk'', base_cost * design)])))"

text \<open>
  The same dictionary over binary64, and the sum of its values, which line 257 hands to the
  chart of the cost distribution as \<^verbatim>\<open>sum(risk_components.values())\<close>.
\<close>

definition risk_components_f64 :: "real \<Rightarrow> py_error + (string \<times> real) list" where
  "risk_components_f64 base_cost =
     and_then (getitem (as_floats RISK_FACTORS) ''cont'') (\<lambda>cont.
     and_then (getitem (as_floats RISK_FACTORS) ''prelim'') (\<lambda>prelim.
     and_then (getitem (as_floats RISK_FACTORS) ''design'') (\<lambda>design.
     Inr [(''Contingencies'', fmul base_cost cont),
          (''Preliminaries'', fmul base_cost prelim),
          (''Design Risk'', fmul base_cost design)])))"

definition risks_f64 :: "real \<Rightarrow> py_error + real" where
  "risks_f64 base_cost =
     and_then (risk_components_f64 base_cost) (\<lambda>rc. Inr (py_sum_f64 (map snd rc)))"

text \<open>Line 243.\<close>

definition base_cost :: "real \<Rightarrow> real \<Rightarrow> real \<Rightarrow> real" where
  "base_cost material_cost labor_cost plant_cost = material_cost + labor_cost + plant_cost"

text \<open>Line 242.\<close>

definition plant_cost :: "real \<Rightarrow> real \<Rightarrow> string \<Rightarrow> py_error + real" where
  "plant_cost material_cost labor_cost building_type =
     and_then (getitem PLANT_RATES building_type) (\<lambda>rate.
     Inr ((material_cost + labor_cost) * rate))"

text \<open>
  Lines 234 to 240: \<open>material_lines\<close> is the list handed to \<^verbatim>\<open>sum\<close>, its items
  evaluated in order, and \<open>material_cost\<close> is the sum.
\<close>

definition material_lines ::
  "real \<Rightarrow> real \<Rightarrow> real \<Rightarrow> real \<Rightarrow> real \<Rightarrow> string \<Rightarrow> real \<Rightarrow> py_error + real list" where
  "material_lines cement blocks steel sand granite building_type current_gfa =
     and_then (and_then (getitem MATERIAL_RATES building_type)
                 (\<lambda>d. getitem d ''cement'')) (\<lambda>r_cement.
     and_then (and_then (getitem MATERIAL_RATES building_type)
                 (\<lambda>d. getitem d ''blocks'')) (\<lambda>r_blocks.
     and_then (and_then (getitem MATERIAL_RATES building_type)
                 (\<lambda>d. getitem d ''steel'')) (\<lambda>r_steel.
     and_then (and_then (getitem MATERIAL_RATES building_type)
                 (\<lambda>d. getitem d ''sand'')) (\<lambda>r_sand.
     and_then (and_then (getitem MATERIAL_RATES building_type)
                 (\<lambda>d. getitem d ''granite'')) (\<lambda>r_granite.
     Inr [cement * r_cement * current_gfa,
          blocks * r_blocks * current_gfa,
          steel * r_steel * current_gfa,
          sand * r_sand * current_gfa,
          granite * r_granite * current_gfa])))))"

definition material_cost ::
  "real \<Rightarrow> real \<Rightarrow> real \<Rightarrow> real \<Rightarrow> real \<Rightarrow> string \<Rightarrow> real \<Rightarrow> py_error + real" where
  "material_cost cement blocks steel sand granite building_type current_gfa =
     and_then (material_lines cement blocks steel sand granite building_type current_gfa)
       (\<lambda>lines. Inr (py_sum lines))"

text \<open>
  Lines 205 and 206. The preprocessor and the model are unpickled objects, opaque to the
  script: they are parameters, \<open>transform\<close> from the one-row frame to whatever the model
  reads and \<open>predict\<close> from that to the array of predictions, one per row. Subscription
  \<^verbatim>\<open>[0]\<close> raises \<^verbatim>\<open>IndexError\<close> on an empty array.
\<close>

definition index0 :: "'a list \<Rightarrow> py_error + 'a" where
  "index0 xs = (case xs of [] \<Rightarrow> Inl IndexError | x # _ \<Rightarrow> Inr x)"

definition total_cost :: "('f \<Rightarrow> 'p) \<Rightarrow> ('p \<Rightarrow> real list) \<Rightarrow> 'f \<Rightarrow> py_error + real" where
  "total_cost transform predict input_data =
     (let processed = transform input_data in index0 (predict processed))"

text \<open>
  Lines 180 to 202: the frame has one row, built from one dictionary; it is the list of
  that dictionary's items, column name and cell, in source order. A cell holds a number
  or a string.
\<close>

datatype cell = Num real | Str string

definition input_data ::
  "real \<Rightarrow> real \<Rightarrow> real \<Rightarrow> string \<Rightarrow> string \<Rightarrow> string \<Rightarrow> string \<Rightarrow> string \<Rightarrow> string \<Rightarrow>
   real \<Rightarrow> real \<Rightarrow> real \<Rightarrow> real \<Rightarrow> real \<Rightarrow> real \<Rightarrow> real \<Rightarrow> int \<Rightarrow> real \<Rightarrow>
   real \<Rightarrow> real \<Rightarrow> real \<Rightarrow> (string \<times> cell) list" where
  "input_data len breadth storeys shape building_type location soil access weather
              cement blocks steel sand granite labor_rate labor_cost workers permit
              site_difficulty shape_complexity vertical_complexity =
     [(''Length'', Num len),
      (''Breadth'', Num breadth),
      (''Storeys'', Num storeys),
      (''Shape'', Str shape),
      (''Type'', Str building_type),
      (''Location'', Str location),
      (''Soil'', Str soil),
      (''Access'', Str access),
      (''Weather'', Str weather),
      (''Cement_Price'', Num cement),
      (''Block_Price'', Num blocks),
      (''Steel_Price'', Num steel),
      (''Sand_Price'', Num sand),
      (''Granite_Price'', Num granite),
      (''Labor_Rate'', Num labor_rate),
      (''Labor_Cost'', Num labor_cost),
      (''Workers'', Num (of_int workers)),
      (''Permit_Months'', Num permit),
      (''Site_Difficulty'', Num site_difficulty),
      (''Shape_Complexity'', Num shape_complexity),
      (''Vertical_Complexity'', Num vertical_complexity)]"

text \<open>Lines 177, 176 and 172.\<close>

definition vertical_complexity :: "real \<Rightarrow> real" where
  "vertical_complexity storeys = storeys * 0.25"

definition shape_complexity :: "string \<Rightarrow> py_error + real" where
  "shape_complexity shape = getitem SHAPE_COMPLEXITY shape"

definition labor_cost :: "real \<Rightarrow> real \<Rightarrow> real" where
  "labor_cost labor_hours labor_rate = labor_hours * labor_rate * (1 + OVERHEAD_PROFIT)"

text \<open>Lines 169 and 168: both divisions can raise.\<close>

definition project_duration :: "real \<Rightarrow> int \<Rightarrow> py_error + real" where
  "project_duration labor_hours workers =
     truediv labor_hours (of_int workers * STANDARD_WORK_HOURS)"

definition labor_productivity :: "real \<Rightarrow> real \<Rightarrow> int \<Rightarrow> py_error + real" where
  "labor_productivity current_gfa labor_hours workers =
     truediv current_gfa (labor_hours * of_int workers)"

text \<open>
  The handler. The area is computed by the script before the form is drawn (line 128);
  the handler then runs lines 167 to 250 in order. What it leaves behind is the record of
  the values the page goes on to show.
\<close>

record estimate =
  est_input_data :: "(string \<times> cell) list"
  est_total_cost :: real
  est_material_cost :: real
  est_labor_cost :: real
  est_plant_cost :: real
  est_base_cost :: real
  est_risk_components :: "(string \<times> real) list"

definition on_submit ::
  "((string \<times> cell) list \<Rightarrow> 'p) \<Rightarrow> ('p \<Rightarrow> real list) \<Rightarrow>
   real \<Rightarrow> real \<Rightarrow> real \<Rightarrow> string \<Rightarrow> string \<Rightarrow> string \<Rightarrow> string \<Rightarrow> string \<Rightarrow> string \<Rightarrow>
   real \<Rightarrow> real \<Rightarrow> real \<Rightarrow> real \<Rightarrow> real \<Rightarrow> real \<Rightarrow> int \<Rightarrow> real \<Rightarrow> py_error + estimate" where
  "on_submit transform predict len breadth storeys shape building_type location soil
             access weather cement blocks steel sand granite labor_rate workers permit =
     and_then (calculate_gfa len breadth storeys shape) (\<lambda>gfa.
     and_then (calculate_labor_hours gfa building_type workers weather) (\<lambda>hours.
     and_then (labor_productivity gfa hours workers) (\<lambda>productivity.
     and_then (project_duration hours workers) (\<lambda>duration.
     and_then (calculate_site_difficulty soil access) (\<lambda>difficulty.
     and_then (shape_complexity shape) (\<lambda>complexity.
     let features = input_data len breadth storeys shape building_type location soil
                      access weather cement blocks steel sand granite labor_rate
                      (labor_cost hours labor_rate) workers permit
                      difficulty complexity (vertical_complexity storeys) in
     and_then (total_cost transform predict features) (\<lambda>total.
     and_then (material_cost cement blocks steel sand granite building_type gfa) (\<lambda>material.
     and_then (plant_cost material (labor_cost hours labor_rate) building_type) (\<lambda>plant.
     and_then (risk_components (base_cost material (labor_cost hours labor_rate) plant)) (\<lambda>risks.
     Inr \<lparr>est_input_data = features,
          est_total_cost = total,
          est_material_cost = material,
          est_labor_cost = labor_cost hours labor_rate,
          est_plant_cost = plant,
          est_base_cost = base_cost material (labor_cost hours labor_rate) plant,
          est_risk_components = risks\<rparr>))))))))))"

section \<open>The labor formula as the specification words it\<close>

text \<open>
  The specification describes the crew efficiency as a step function of the crew size:
  at most 14 workers 0.9, 15 to 30 workers 1.0, more than 30 workers 1.1. This is that
  description, to be compared with \<open>crew_efficiency\<close>.
\<close>

definition spec_crew_efficiency :: "int \<Rightarrow> real" where
  "spec_crew_efficiency crew_size =
     (if crew_size \<le> 14 then 0.9 else if crew_size \<le> 30 then 1.0 else 1.1)"

section \<open>Running the model\<close>

lemma getitem_Nil: "getitem [] k = Inl (KeyError k)"
  by (simp add: getitem_def)

lemma getitem_Cons: "getitem ((a, v) # d) k = (if a = k then Inr v else getitem d k)"
  by (simp add: getitem_def)

lemma and_then_Inl: "and_then (Inl e) f = Inl e"
  by (simp add: and_then_def)

lemma and_then_Inr: "and_then (Inr v) f = f v"
  by (simp add: and_then_def)

lemmas run = getitem_Nil getitem_Cons and_then_Inl and_then_Inr

lemma getitem_map_of: "map_of d k = Some v \<Longrightarrow> getitem d k = Inr v"
  by (simp add: getitem_def)

lemma getitem_present: "k \<in> set (keys d) \<Longrightarrow> \<exists>v. getitem d k = Inr v \<and> map_of d k = Some v"
  by (cases "map_of d k") (auto simp: getitem_def keys_def map_of_eq_None_iff)

text \<open>The tables inside \<open>EFFICIENCY_FACTORS\<close> and what the labor calculator reads from them.\<close>

lemma crew_size_table:
  "getitem EFFICIENCY_FACTORS ''crew_size'' = Inr [(''Small'', 0.9), (''Medium'', 1.0), (''Large'', 1.1)]"
  by (simp add: EFFICIENCY_FACTORS_def run)

lemma weather_table:
  "getitem EFFICIENCY_FACTORS ''weather'' = Inr [(''Good'', 1.0), (''Average'', 0.9), (''Poor'', 0.8)]"
  by (simp add: EFFICIENCY_FACTORS_def run)

lemma crew_efficiency_eq: "crew_efficiency c = Inr (spec_crew_efficiency c)"
  by (simp add: crew_efficiency_def spec_crew_efficiency_def crew_size_table run)

lemma spec_crew_efficiency_bounds: "0.9 \<le> spec_crew_efficiency c" "spec_crew_efficiency c \<le> 1.1"
  by (simp_all add: spec_crew_efficiency_def)

lemma weather_efficiency_cases:
  "weather_efficiency ''Good'' = Inr 1.0"
  "weather_efficiency ''Average'' = Inr 0.9"
  "weather_efficiency ''Poor'' = Inr 0.8"
  by (simp_all add: weather_efficiency_def weather_table run)

lemma weather_efficiency_missing:
  "w \<notin> {''Good'', ''Average'', ''Poor''} \<Longrightarrow> weather_efficiency w = Inl (KeyError w)"
  by (auto simp: weather_efficiency_def weather_table run)

lemma base_hours_cases:
  "base_hours gfa ''Residential'' = Inr (4.7 * gfa)"
  "base_hours gfa ''Commercial'' = Inr (6 * gfa)"
  "base_hours gfa ''Industrial'' = Inr (7.5 * gfa)"
  by (simp_all add: base_hours_def LABOR_PRODUCTIVITY_RATES_def py_sum_def run)

lemma base_hours_missing:
  "bt \<notin> {''Residential'', ''Commercial'', ''Industrial''} \<Longrightarrow> base_hours gfa bt = Inl (KeyError bt)"
  by (auto simp: base_hours_def LABOR_PRODUCTIVITY_RATES_def run)

lemma base_hours_eq:
  assumes "map_of LABOR_PRODUCTIVITY_RATES bt = Some rates"
      and "map_of rates ''foundation'' = Some f"
      and "map_of rates ''structural'' = Some s"
      and "map_of rates ''finishing'' = Some fin"
  shows "base_hours gfa bt = Inr ((f + s + fin) * gfa)"
  using assms by (simp add: base_hours_def getitem_map_of and_then_Inr py_sum_def)

lemma base_hours_positive:
  assumes "bt \<in> {''Residential'', ''Commercial'', ''Industrial''}" and "0 < gfa"
  shows "\<exists>bh. base_hours gfa bt = Inr bh \<and> 0 < bh"
proof -
  from assms(1) consider "bt = ''Residential''" | "bt = ''Commercial''" | "bt = ''Industrial''"
    by auto
  then show ?thesis
  proof cases
    case 1
    with assms(2) show ?thesis
      by (intro exI [of _ "4.7 * gfa"]) (simp add: base_hours_cases(1))
  next
    case 2
    with assms(2) show ?thesis
      by (intro exI [of _ "6 * gfa"]) (simp add: base_hours_cases(2))
  next
    case 3
    with assms(2) show ?thesis
      by (intro exI [of _ "7.5 * gfa"]) (simp add: base_hours_cases(3))
  qed
qed

lemma labor_hours_closed:
  assumes "base_hours gfa bt = Inr bh" and "weather_efficiency w = Inr we" and "we \<noteq> 0"
  shows "calculate_labor_hours gfa bt c w = Inr (bh / (spec_crew_efficiency c * we))"
proof -
  have "spec_crew_efficiency c \<noteq> 0"
    using spec_crew_efficiency_bounds(1) [of c] by simp
  with assms show ?thesis
    by (simp add: calculate_labor_hours_def crew_efficiency_eq truediv_def and_then_Inr)
qed

section \<open>Gross floor area\<close>

text \<open>
  Claim C2. For every shape the shape-complexity table knows, \<open>calculate_gfa\<close> returns
  the product length \<times> breadth \<times> storeys \<times> multiplier of the shape, with nothing
  rounded; the positivity of the three numbers is not needed for that. For length 20,
  breadth 15, two storeys and the shape Rectangular the result is 600.
\<close>

theorem calculate_gfa_exact:
  "(map_of SHAPE_COMPLEXITY shape = Some m \<longrightarrow>
      calculate_gfa len breadth storeys shape = Inr (len * breadth * storeys * m))
   \<and> calculate_gfa 20 15 2 ''Rectangular'' = Inr 600"
proof
  show "map_of SHAPE_COMPLEXITY shape = Some m \<longrightarrow>
      calculate_gfa len breadth storeys shape = Inr (len * breadth * storeys * m)"
    by (simp add: calculate_gfa_def getitem_map_of and_then_Inr)
  show "calculate_gfa 20 15 2 ''Rectangular'' = Inr 600"
    by (simp add: calculate_gfa_def SHAPE_COMPLEXITY_def run)
qed

theorem calculate_gfa_exact_witness:
  "map_of SHAPE_COMPLEXITY ''Circular'' = Some 1.25 \<and>
   calculate_gfa 10 12 4 ''Circular'' = Inr 600"
proof -
  have h: "map_of SHAPE_COMPLEXITY ''Circular'' = Some 1.25"
    by (simp add: SHAPE_COMPLEXITY_def)
  from calculate_gfa_exact [of "''Circular''" "1.25" 10 12 4] h show ?thesis
    by simp
qed

section \<open>Labor hours\<close>

text \<open>
  Claim C3. For every building type of the productivity table, every weather key of the
  weather table and every crew size, \<open>calculate_labor_hours\<close> returns the sum of the
  foundation, structural and finishing rates of the building type, times the area,
  divided by the product of the crew efficiency and the weather efficiency. The crew
  efficiency is the step function of the specification (0.9 up to 14 workers, 1.0 from 15
  to 30, 1.1 above 30) and the weather efficiency is the entry of the weather table. The
  positivity of the area is not needed.
\<close>

theorem calculate_labor_hours_formula:
  assumes "map_of LABOR_PRODUCTIVITY_RATES building_type = Some rates"
      and "map_of rates ''foundation'' = Some foundation"
      and "map_of rates ''structural'' = Some structural"
      and "map_of rates ''finishing'' = Some finishing"
      and "map_of EFFICIENCY_FACTORS ''weather'' = Some weather_factors"
      and "map_of weather_factors weather_condition = Some we"
  shows "crew_efficiency crew_size = Inr (spec_crew_efficiency crew_size)
       \<and> spec_crew_efficiency crew_size =
            (if crew_size \<le> 14 then 0.9 else if 15 \<le> crew_size \<and> crew_size \<le> 30 then 1.0 else 1.1)
       \<and> weather_efficiency weather_condition = Inr we
       \<and> calculate_labor_hours gfa building_type crew_size weather_condition =
            Inr ((foundation + structural + finishing) * gfa
                 / (spec_crew_efficiency crew_size * we))"
proof (intro conjI)
  show "crew_efficiency crew_size = Inr (spec_crew_efficiency crew_size)"
    by (rule crew_efficiency_eq)
  show "spec_crew_efficiency crew_size =
          (if crew_size \<le> 14 then 0.9 else if 15 \<le> crew_size \<and> crew_size \<le> 30 then 1.0 else 1.1)"
    by (simp add: spec_crew_efficiency_def)
  have wf: "weather_factors = [(''Good'', 1.0), (''Average'', 0.9), (''Poor'', 0.8)]"
    using assms(5) by (simp add: EFFICIENCY_FACTORS_def)
  show w: "weather_efficiency weather_condition = Inr we"
    using assms(5,6) by (simp add: weather_efficiency_def getitem_map_of and_then_Inr)
  have "we \<noteq> 0"
    using assms(6) unfolding wf by (auto split: if_splits)
  with base_hours_eq [OF assms(1-4)] w
  show "calculate_labor_hours gfa building_type crew_size weather_condition =
          Inr ((foundation + structural + finishing) * gfa
               / (spec_crew_efficiency crew_size * we))"
    by (rule labor_hours_closed)
qed

theorem calculate_labor_hours_formula_witness:
  "calculate_labor_hours 600 ''Residential'' 20 ''Average'' = Inr ((1.2 + 2.0 + 1.5) * 600 / (1.0 * 0.9))"
proof -
  have 1: "map_of LABOR_PRODUCTIVITY_RATES ''Residential'' =
             Some [(''foundation'', 1.2), (''structural'', 2.0), (''finishing'', 1.5)]"
    by (simp add: LABOR_PRODUCTIVITY_RATES_def)
  have 2: "map_of [(''foundation'', 1.2), (''structural'', 2.0), (''finishing'', 1.5)] ''foundation'' = Some (1.2::real)"
    by simp
  have 3: "map_of [(''foundation'', 1.2), (''structural'', 2.0), (''finishing'', 1.5)] ''structural'' = Some (2.0::real)"
    by simp
  have 4: "map_of [(''foundation'', 1.2), (''structural'', 2.0), (''finishing'', 1.5)] ''finishing'' = Some (1.5::real)"
    by simp
  have 5: "map_of EFFICIENCY_FACTORS ''weather'' = Some [(''Good'', 1.0), (''Average'', 0.9), (''Poor'', 0.8)]"
    by (simp add: EFFICIENCY_FACTORS_def)
  have 6: "map_of [(''Good'', 1.0), (''Average'', 0.9), (''Poor'', 0.8)] ''Average'' = Some (0.9::real)"
    by simp
  from calculate_labor_hours_formula [OF 1 2 3 4 5 6, of 20 600]
  show ?thesis by (simp add: spec_crew_efficiency_def)
qed

lemma weather_efficiency_recognised:
  assumes "w \<in> {''Good'', ''Average'', ''Poor''}"
  shows "\<exists>we. weather_efficiency w = Inr we \<and> 0.8 \<le> we \<and> we \<le> 1"
proof -
  from assms consider "w = ''Good''" | "w = ''Average''" | "w = ''Poor''"
    by auto
  then show ?thesis
  proof cases
    case 1
    then show ?thesis
      by (intro exI [of _ "1.0"]) (simp add: weather_efficiency_cases(1))
  next
    case 2
    then show ?thesis
      by (intro exI [of _ "0.9"]) (simp add: weather_efficiency_cases(2))
  next
    case 3
    then show ?thesis
      by (intro exI [of _ "0.8"]) (simp add: weather_efficiency_cases(3))
  qed
qed

text \<open>
  Claim C10. For every crew size and every weather key of the weather table the divisor
  crew efficiency \<times> weather efficiency is at least 0.9 \<times> 0.8 = 0.72, hence positive:
  the division of \<open>calculate_labor_hours\<close> never raises, and for a recognised building
  type and a positive area the hours returned are positive.
\<close>

theorem labor_divisor_positive:
  assumes "map_of EFFICIENCY_FACTORS ''weather'' = Some weather_factors"
      and "weather_condition \<in> set (keys weather_factors)"
  shows "\<exists>ce we. crew_efficiency crew_size = Inr ce
           \<and> weather_efficiency weather_condition = Inr we
           \<and> 0.9 * 0.8 \<le> ce * we \<and> 0.72 \<le> ce * we \<and> 0 < ce * we
           \<and> calculate_labor_hours gfa building_type crew_size weather_condition
                 \<noteq> Inl ZeroDivisionError
           \<and> (0 < gfa \<and> building_type \<in> set (keys LABOR_PRODUCTIVITY_RATES) \<longrightarrow>
                 (\<exists>h. calculate_labor_hours gfa building_type crew_size weather_condition = Inr h
                      \<and> 0 < h))"
proof -
  have wf: "weather_factors = [(''Good'', 1.0), (''Average'', 0.9), (''Poor'', 0.8)]"
    using assms(1) by (simp add: EFFICIENCY_FACTORS_def)
  from assms(2) have "weather_condition \<in> {''Good'', ''Average'', ''Poor''}"
    unfolding wf by (simp add: keys_def)
  from weather_efficiency_recognised [OF this]
  obtain we where we: "weather_efficiency weather_condition = Inr we" and lo: "0.8 \<le> we"
    by blast
  define ce where "ce = spec_crew_efficiency crew_size"
  have ce: "crew_efficiency crew_size = Inr ce" and ce_lo: "0.9 \<le> ce"
    using crew_efficiency_eq spec_crew_efficiency_bounds(1) by (simp_all add: ce_def)
  have "0.9 * 0.8 \<le> ce * we"
    using ce_lo lo by (intro mult_mono) simp_all
  then have bound: "0.72 \<le> ce * we"
    by simp
  then have pos: "0 < ce * we"
    by simp
  have nz: "calculate_labor_hours gfa building_type crew_size weather_condition
              \<noteq> Inl ZeroDivisionError"
  proof (cases "base_hours gfa building_type")
    case (Inl e)
    have "building_type \<notin> {''Residential'', ''Commercial'', ''Industrial''}"
      using Inl base_hours_cases [of gfa] by auto
    then have "base_hours gfa building_type = Inl (KeyError building_type)"
      by (rule base_hours_missing)
    then show ?thesis
      by (simp add: calculate_labor_hours_def and_then_Inl)
  next
    case (Inr bh)
    from pos have "ce * we \<noteq> 0"
      by auto
    with Inr ce we show ?thesis
      by (simp only: calculate_labor_hours_def and_then_Inr truediv_def if_False) simp
  qed
  have hours: "\<exists>h. calculate_labor_hours gfa building_type crew_size weather_condition = Inr h
                 \<and> 0 < h"
    if "0 < gfa" and "building_type \<in> set (keys LABOR_PRODUCTIVITY_RATES)"
  proof -
    from that(2) have "building_type \<in> {''Residential'', ''Commercial'', ''Industrial''}"
      by (simp add: keys_def LABOR_PRODUCTIVITY_RATES_def)
    from base_hours_positive [OF this that(1)]
    obtain bh where bh: "base_hours gfa building_type = Inr bh" and "0 < bh"
      by blast
    from pos have "we \<noteq> 0"
      by auto
    from labor_hours_closed [OF bh we this, of crew_size] \<open>0 < bh\<close> pos
    show ?thesis
      by (simp add: ce_def)
  qed
  from ce we \<open>0.9 * 0.8 \<le> ce * we\<close> bound pos nz hours show ?thesis
    by blast
qed

theorem labor_divisor_positive_witness:
  "\<exists>ce we. crew_efficiency 10 = Inr ce \<and> weather_efficiency ''Poor'' = Inr we
      \<and> 0.72 \<le> ce * we
      \<and> (\<exists>h. calculate_labor_hours 100 ''Industrial'' 10 ''Poor'' = Inr h \<and> 0 < h)"
proof -
  have 1: "map_of EFFICIENCY_FACTORS ''weather'' =
             Some [(''Good'', 1.0), (''Average'', 0.9), (''Poor'', 0.8)]"
    by (simp add: EFFICIENCY_FACTORS_def)
  have 2: "''Poor'' \<in> set (keys [(''Good'', 1.0::real), (''Average'', 0.9), (''Poor'', 0.8)])"
    by (simp add: keys_def)
  have 3: "(0::real) < 100 \<and> ''Industrial'' \<in> set (keys LABOR_PRODUCTIVITY_RATES)"
    by (simp add: keys_def LABOR_PRODUCTIVITY_RATES_def)
  from labor_divisor_positive [OF 1 2, of 10 100 "''Industrial''"] 3 show ?thesis
    by blast
qed

lemma labor_hours_recognised:
  assumes "0 < gfa" and "bt \<in> {''Residential'', ''Commercial'', ''Industrial''}"
      and "weather_efficiency w = Inr we" and "0 < we"
  shows "\<exists>bh. 0 < bh \<and> (\<forall>c. calculate_labor_hours gfa bt c w =
                                Inr (bh / (spec_crew_efficiency c * we)))"
proof -
  from base_hours_positive [OF assms(2) assms(1)]
  obtain bh where bh: "base_hours gfa bt = Inr bh" and "0 < bh"
    by blast
  from assms(4) have "we \<noteq> 0"
    by simp
  from labor_hours_closed [OF bh assms(3) this] \<open>0 < bh\<close> show ?thesis
    by blast
qed

lemma fewer_hours:
  fixes bh d1 d2 :: real
  assumes "0 < bh" and "0 < d1" and "d1 < d2"
  shows "bh / d2 < bh / d1"
  using assms by (intro divide_strict_left_mono) simp_all

text \<open>
  Inside one band of crew sizes (up to 14, 15 to 30, above 30) the crew size does not
  change the result.
\<close>

lemma labor_hours_same_band:
  assumes "(c1 \<le> 14 \<and> c2 \<le> 14) \<or> (15 \<le> c1 \<and> c1 \<le> 30 \<and> 15 \<le> c2 \<and> c2 \<le> 30)
             \<or> (30 < c1 \<and> 30 < c2)"
  shows "calculate_labor_hours gfa bt c1 w = calculate_labor_hours gfa bt c2 w"
proof -
  from assms have "spec_crew_efficiency c1 = spec_crew_efficiency c2"
    by (auto simp: spec_crew_efficiency_def)
  then show ?thesis
    by (simp add: calculate_labor_hours_def crew_efficiency_eq)
qed

lemma labor_hours_same_band_witness:
  "calculate_labor_hours 600 ''Residential'' 31 ''Good''
     = calculate_labor_hours 600 ''Residential'' 100 ''Good''"
  using labor_hours_same_band [of 31 100 600 "''Residential''" "''Good''"] by simp

text \<open>
  Claim C4. With the same positive area, the same recognised building type and the same
  weather, the hours strictly decrease when the crew goes from 14 to 15 workers and from
  30 to 31. For every crew size the hours under Average weather are strictly below those
  under Poor weather, and those under Good weather strictly below those under Average.
  A crew of more than 30 workers needs strictly fewer hours than any crew of at most 30.
\<close>

theorem labor_hours_strictly_decrease:
  assumes "0 < gfa" and "building_type \<in> set (keys LABOR_PRODUCTIVITY_RATES)"
  shows "(\<exists>hp ha hg.
            calculate_labor_hours gfa building_type crew_size ''Poor'' = Inr hp
          \<and> calculate_labor_hours gfa building_type crew_size ''Average'' = Inr ha
          \<and> calculate_labor_hours gfa building_type crew_size ''Good'' = Inr hg
          \<and> ha < hp \<and> hg < ha)
       \<and> (weather \<in> {''Good'', ''Average'', ''Poor''} \<longrightarrow>
            (\<exists>h14 h15 h30 h31.
                calculate_labor_hours gfa building_type 14 weather = Inr h14
              \<and> calculate_labor_hours gfa building_type 15 weather = Inr h15
              \<and> calculate_labor_hours gfa building_type 30 weather = Inr h30
              \<and> calculate_labor_hours gfa building_type 31 weather = Inr h31
              \<and> h15 < h14 \<and> h31 < h30)
          \<and> (c1 \<le> 30 \<and> 30 < c2 \<longrightarrow>
               (\<exists>h1 h2.
                   calculate_labor_hours gfa building_type c1 weather = Inr h1
                 \<and> calculate_labor_hours gfa building_type c2 weather = Inr h2
                 \<and> h2 < h1)))"
proof (intro conjI impI)
  from assms(2) have bt: "building_type \<in> {''Residential'', ''Commercial'', ''Industrial''}"
    by (simp add: keys_def LABOR_PRODUCTIVITY_RATES_def)
  have ce: "0 < spec_crew_efficiency c" for c
    using spec_crew_efficiency_bounds(1) [of c] by simp
  show "\<exists>hp ha hg.
            calculate_labor_hours gfa building_type crew_size ''Poor'' = Inr hp
          \<and> calculate_labor_hours gfa building_type crew_size ''Average'' = Inr ha
          \<and> calculate_labor_hours gfa building_type crew_size ''Good'' = Inr hg
          \<and> ha < hp \<and> hg < ha"
  proof -
    from base_hours_positive [OF bt assms(1)]
    obtain bh where bh: "base_hours gfa building_type = Inr bh" and pos: "0 < bh"
      by blast
    let ?ce = "spec_crew_efficiency crew_size"
    have p: "calculate_labor_hours gfa building_type crew_size ''Poor'' = Inr (bh / (?ce * 0.8))"
      by (rule labor_hours_closed [OF bh weather_efficiency_cases(3)]) simp
    have a: "calculate_labor_hours gfa building_type crew_size ''Average'' = Inr (bh / (?ce * 0.9))"
      by (rule labor_hours_closed [OF bh weather_efficiency_cases(2)]) simp
    have g: "calculate_labor_hours gfa building_type crew_size ''Good'' = Inr (bh / (?ce * 1.0))"
      by (rule labor_hours_closed [OF bh weather_efficiency_cases(1)]) simp
    have 1: "bh / (?ce * 0.9) < bh / (?ce * 0.8)"
      using pos ce [of crew_size] by (intro fewer_hours) simp_all
    have 2: "bh / (?ce * 1.0) < bh / (?ce * 0.9)"
      using pos ce [of crew_size] by (intro fewer_hours) simp_all
    from p a g 1 2 show ?thesis
      by blast
  qed
next
  assume "weather \<in> {''Good'', ''Average'', ''Poor''}"
  from weather_efficiency_recognised [OF this]
  obtain we where we: "weather_efficiency weather = Inr we" and "0.8 \<le> we"
    by blast
  then have wpos: "0 < we"
    by simp
  from assms(2) have bt: "building_type \<in> {''Residential'', ''Commercial'', ''Industrial''}"
    by (simp add: keys_def LABOR_PRODUCTIVITY_RATES_def)
  from labor_hours_recognised [OF assms(1) bt we wpos]
  obtain bh where pos: "0 < bh"
    and closed: "\<And>c. calculate_labor_hours gfa building_type c weather =
                       Inr (bh / (spec_crew_efficiency c * we))"
    by blast
  have ce: "0 < spec_crew_efficiency c" for c
    using spec_crew_efficiency_bounds(1) [of c] by simp
  have step: "bh / (spec_crew_efficiency b * we) < bh / (spec_crew_efficiency a * we)"
    if "spec_crew_efficiency a < spec_crew_efficiency b" for a b
    using pos wpos ce [of a] that by (intro fewer_hours) simp_all
  have "bh / (spec_crew_efficiency 15 * we) < bh / (spec_crew_efficiency 14 * we)"
    by (rule step) (simp add: spec_crew_efficiency_def)
  moreover have "bh / (spec_crew_efficiency 31 * we) < bh / (spec_crew_efficiency 30 * we)"
    by (rule step) (simp add: spec_crew_efficiency_def)
  ultimately show "\<exists>h14 h15 h30 h31.
                calculate_labor_hours gfa building_type 14 weather = Inr h14
              \<and> calculate_labor_hours gfa building_type 15 weather = Inr h15
              \<and> calculate_labor_hours gfa building_type 30 weather = Inr h30
              \<and> calculate_labor_hours gfa building_type 31 weather = Inr h31
              \<and> h15 < h14 \<and> h31 < h30"
    using closed by blast
  assume "c1 \<le> 30 \<and> 30 < c2"
  then have "spec_crew_efficiency c1 < spec_crew_efficiency c2"
    by (simp add: spec_crew_efficiency_def)
  from step [OF this] show "\<exists>h1 h2.
                   calculate_labor_hours gfa building_type c1 weather = Inr h1
                 \<and> calculate_labor_hours gfa building_type c2 weather = Inr h2
                 \<and> h2 < h1"
    using closed by blast
qed

theorem labor_hours_strictly_decrease_witness:
  "(\<exists>hp ha hg.
       calculate_labor_hours 600 ''Residential'' 20 ''Poor'' = Inr hp
     \<and> calculate_labor_hours 600 ''Residential'' 20 ''Average'' = Inr ha
     \<and> calculate_labor_hours 600 ''Residential'' 20 ''Good'' = Inr hg
     \<and> ha < hp \<and> hg < ha)
   \<and> (\<exists>h14 h15 h30 h31.
         calculate_labor_hours 600 ''Residential'' 14 ''Good'' = Inr h14
       \<and> calculate_labor_hours 600 ''Residential'' 15 ''Good'' = Inr h15
       \<and> calculate_labor_hours 600 ''Residential'' 30 ''Good'' = Inr h30
       \<and> calculate_labor_hours 600 ''Residential'' 31 ''Good'' = Inr h31
       \<and> h15 < h14 \<and> h31 < h30)
   \<and> (\<exists>h1 h2.
         calculate_labor_hours 600 ''Residential'' 12 ''Good'' = Inr h1
       \<and> calculate_labor_hours 600 ''Residential'' 40 ''Good'' = Inr h2
       \<and> h2 < h1)"
proof -
  have 1: "(0::real) < 600"
    by simp
  have 2: "''Residential'' \<in> set (keys LABOR_PRODUCTIVITY_RATES)"
    by (simp add: keys_def LABOR_PRODUCTIVITY_RATES_def)
  have 3: "''Good'' \<in> {''Good'', ''Average'', ''Poor''}"
    by simp
  have 4: "(12::int) \<le> 30 \<and> (30::int) < 40"
    by simp
  from labor_hours_strictly_decrease [OF 1 2, of 20 "''Good''" 12 40] 3 4 show ?thesis
    by blast
qed

section \<open>Keys that are not in the tables\<close>

lemma base_hours_recognised:
  assumes "bt \<in> {''Residential'', ''Commercial'', ''Industrial''}"
  shows "\<exists>bh. base_hours gfa bt = Inr bh"
proof -
  from assms consider "bt = ''Residential''" | "bt = ''Commercial''" | "bt = ''Industrial''"
    by auto
  then show ?thesis
  proof cases
    case 1
    then show ?thesis
      by (intro exI [of _ "4.7 * gfa"]) (simp add: base_hours_cases(1))
  next
    case 2
    then show ?thesis
      by (intro exI [of _ "6 * gfa"]) (simp add: base_hours_cases(2))
  next
    case 3
    then show ?thesis
      by (intro exI [of _ "7.5 * gfa"]) (simp add: base_hours_cases(3))
  qed
qed

lemma calculate_gfa_result:
  "calculate_gfa len breadth storeys shape =
     (case map_of SHAPE_COMPLEXITY shape of
        None \<Rightarrow> Inl (KeyError shape)
      | Some m \<Rightarrow> Inr (len * breadth * storeys * m))"
  by (simp add: calculate_gfa_def getitem_def and_then_def split: option.splits)

lemma calculate_site_difficulty_result:
  "calculate_site_difficulty soil access =
     (case map_of soil_map soil of
        None \<Rightarrow> Inl (KeyError soil)
      | Some s \<Rightarrow>
          (case map_of access_map access of
             None \<Rightarrow> Inl (KeyError access)
           | Some a \<Rightarrow> Inr (s * a)))"
  by (simp add: calculate_site_difficulty_def getitem_def and_then_def split: option.splits)

lemma map_of_None_keys: "map_of d k = None \<longleftrightarrow> k \<notin> set (keys d)"
  by (simp add: keys_def map_of_eq_None_iff)

lemma calculate_labor_hours_result:
  "calculate_labor_hours gfa bt c w =
     (if bt \<notin> {''Residential'', ''Commercial'', ''Industrial''} then Inl (KeyError bt)
      else if w \<notin> {''Good'', ''Average'', ''Poor''} then Inl (KeyError w)
      else and_then (base_hours gfa bt) (\<lambda>bh.
           and_then (weather_efficiency w) (\<lambda>we.
           Inr (bh / (spec_crew_efficiency c * we)))))"
proof (cases "bt \<in> {''Residential'', ''Commercial'', ''Industrial''}")
  case False
  then show ?thesis
    by (simp add: calculate_labor_hours_def base_hours_missing and_then_Inl)
next
  case bt: True
  from base_hours_recognised [OF bt]
  obtain bh where bh: "base_hours gfa bt = Inr bh"
    by blast
  show ?thesis
  proof (cases "w \<in> {''Good'', ''Average'', ''Poor''}")
    case False
    have "calculate_labor_hours gfa bt c w = Inl (KeyError w)"
      by (simp only: calculate_labor_hours_def bh crew_efficiency_eq
            weather_efficiency_missing [OF False] and_then_Inl and_then_Inr)
    with bt False show ?thesis
      by simp
  next
    case True
    from weather_efficiency_recognised [OF True]
    obtain we where we: "weather_efficiency w = Inr we" and "0.8 \<le> we"
      by blast
    then have "we \<noteq> 0"
      by auto
    from labor_hours_closed [OF bh we this, of c] bt True bh we show ?thesis
      by (simp add: and_then_Inr)
  qed
qed

text \<open>
  Claim C8. Each lookup of the three calculators raises \<^verbatim>\<open>KeyError\<close> for its key, with
  no value returned in its place, exactly when the key is not in the table looked up:
  the shape in \<open>calculate_gfa\<close>, the soil and then the access in
  \<open>calculate_site_difficulty\<close>, the building type and then the weather in
  \<open>calculate_labor_hours\<close>. For keys of the tables the functions raise nothing.
\<close>

theorem lookups_fail_iff_key_missing:
  "((\<exists>e. calculate_gfa len breadth storeys shape = Inl e)
        \<longleftrightarrow> shape \<notin> set (keys SHAPE_COMPLEXITY))
   \<and> (shape \<notin> set (keys SHAPE_COMPLEXITY)
        \<longrightarrow> calculate_gfa len breadth storeys shape = Inl (KeyError shape))
   \<and> ((\<exists>e. calculate_site_difficulty soil access = Inl e)
        \<longleftrightarrow> (soil \<notin> set (keys soil_map) \<or> access \<notin> set (keys access_map)))
   \<and> (soil \<notin> set (keys soil_map)
        \<longrightarrow> calculate_site_difficulty soil access = Inl (KeyError soil))
   \<and> (soil \<in> set (keys soil_map) \<and> access \<notin> set (keys access_map)
        \<longrightarrow> calculate_site_difficulty soil access = Inl (KeyError access))
   \<and> (\<exists>weather_factors. getitem EFFICIENCY_FACTORS ''weather'' = Inr weather_factors
        \<and> ((\<exists>e. calculate_labor_hours gfa building_type crew_size weather_condition = Inl e)
              \<longleftrightarrow> (building_type \<notin> set (keys LABOR_PRODUCTIVITY_RATES)
                   \<or> weather_condition \<notin> set (keys weather_factors)))
        \<and> (building_type \<notin> set (keys LABOR_PRODUCTIVITY_RATES)
              \<longrightarrow> calculate_labor_hours gfa building_type crew_size weather_condition
                    = Inl (KeyError building_type))
        \<and> (building_type \<in> set (keys LABOR_PRODUCTIVITY_RATES)
            \<and> weather_condition \<notin> set (keys weather_factors)
              \<longrightarrow> calculate_labor_hours gfa building_type crew_size weather_condition
                    = Inl (KeyError weather_condition)))"
proof (intro conjI)
  show "(\<exists>e. calculate_gfa len breadth storeys shape = Inl e)
          \<longleftrightarrow> shape \<notin> set (keys SHAPE_COMPLEXITY)"
    by (simp add: calculate_gfa_result map_of_None_keys [symmetric] split: option.splits)
  show "shape \<notin> set (keys SHAPE_COMPLEXITY)
          \<longrightarrow> calculate_gfa len breadth storeys shape = Inl (KeyError shape)"
    by (simp add: calculate_gfa_result map_of_None_keys [symmetric])
  show "(\<exists>e. calculate_site_difficulty soil access = Inl e)
          \<longleftrightarrow> (soil \<notin> set (keys soil_map) \<or> access \<notin> set (keys access_map))"
    by (simp add: calculate_site_difficulty_result map_of_None_keys [symmetric]
          split: option.splits)
  show "soil \<notin> set (keys soil_map)
          \<longrightarrow> calculate_site_difficulty soil access = Inl (KeyError soil)"
    by (simp add: calculate_site_difficulty_result map_of_None_keys [symmetric])
  show "soil \<in> set (keys soil_map) \<and> access \<notin> set (keys access_map)
          \<longrightarrow> calculate_site_difficulty soil access = Inl (KeyError access)"
  proof
    assume h: "soil \<in> set (keys soil_map) \<and> access \<notin> set (keys access_map)"
    then obtain s where "map_of soil_map soil = Some s"
      using getitem_present by blast
    moreover from h have "map_of access_map access = None"
      by (simp add: map_of_None_keys)
    ultimately show "calculate_site_difficulty soil access = Inl (KeyError access)"
      by (simp add: calculate_site_difficulty_result)
  qed
  have bt: "building_type \<in> set (keys LABOR_PRODUCTIVITY_RATES)
              \<longleftrightarrow> building_type \<in> {''Residential'', ''Commercial'', ''Industrial''}"
    by (auto simp: keys_def LABOR_PRODUCTIVITY_RATES_def)
  let ?wf = "[(''Good'', 1.0), (''Average'', 0.9), (''Poor'', 0.8)] :: (string \<times> real) list"
  have w: "weather_condition \<in> set (keys ?wf)
              \<longleftrightarrow> weather_condition \<in> {''Good'', ''Average'', ''Poor''}"
    by (auto simp: keys_def)
  have ok: "\<exists>h. calculate_labor_hours gfa building_type crew_size weather_condition = Inr h"
    if "building_type \<in> {''Residential'', ''Commercial'', ''Industrial''}"
      and "weather_condition \<in> {''Good'', ''Average'', ''Poor''}"
  proof -
    from base_hours_recognised [OF that(1)]
    obtain bh where bh: "base_hours gfa building_type = Inr bh"
      by blast
    from weather_efficiency_recognised [OF that(2)]
    obtain we where we: "weather_efficiency weather_condition = Inr we" and "0.8 \<le> we"
      by blast
    then have "we \<noteq> 0"
      by auto
    from labor_hours_closed [OF bh we this] show ?thesis
      by blast
  qed
  have fails: "(\<exists>e. calculate_labor_hours gfa building_type crew_size weather_condition = Inl e)
          \<longleftrightarrow> (building_type \<notin> set (keys LABOR_PRODUCTIVITY_RATES)
               \<or> weather_condition \<notin> set (keys ?wf))"
  proof (cases "building_type \<in> {''Residential'', ''Commercial'', ''Industrial''}
                  \<and> weather_condition \<in> {''Good'', ''Average'', ''Poor''}")
    case True
    with ok obtain h
      where "calculate_labor_hours gfa building_type crew_size weather_condition = Inr h"
      by blast
    with True show ?thesis
      unfolding bt w by simp
  next
    case False
    then have "\<exists>e. calculate_labor_hours gfa building_type crew_size weather_condition = Inl e"
      by (auto simp: calculate_labor_hours_result)
    with False show ?thesis
      unfolding bt w by blast
  qed
  have e1: "building_type \<notin> set (keys LABOR_PRODUCTIVITY_RATES)
              \<longrightarrow> calculate_labor_hours gfa building_type crew_size weather_condition
                    = Inl (KeyError building_type)"
    unfolding bt by (simp add: calculate_labor_hours_result)
  have e2: "building_type \<in> set (keys LABOR_PRODUCTIVITY_RATES)
            \<and> weather_condition \<notin> set (keys ?wf)
              \<longrightarrow> calculate_labor_hours gfa building_type crew_size weather_condition
                    = Inl (KeyError weather_condition)"
    unfolding bt w by (simp add: calculate_labor_hours_result)
  from weather_table fails e1 e2
  show "\<exists>weather_factors. getitem EFFICIENCY_FACTORS ''weather'' = Inr weather_factors
        \<and> ((\<exists>e. calculate_labor_hours gfa building_type crew_size weather_condition = Inl e)
              \<longleftrightarrow> (building_type \<notin> set (keys LABOR_PRODUCTIVITY_RATES)
                   \<or> weather_condition \<notin> set (keys weather_factors)))
        \<and> (building_type \<notin> set (keys LABOR_PRODUCTIVITY_RATES)
              \<longrightarrow> calculate_labor_hours gfa building_type crew_size weather_condition
                    = Inl (KeyError building_type))
        \<and> (building_type \<in> set (keys LABOR_PRODUCTIVITY_RATES)
            \<and> weather_condition \<notin> set (keys weather_factors)
              \<longrightarrow> calculate_labor_hours gfa building_type crew_size weather_condition
                    = Inl (KeyError weather_condition))"
    by (intro exI [of _ ?wf] conjI)
qed

theorem lookups_fail_iff_key_missing_witness:
  "calculate_gfa 20 15 2 ''Hexagonal'' = Inl (KeyError ''Hexagonal'')
   \<and> calculate_site_difficulty ''Chalk'' ''Good'' = Inl (KeyError ''Chalk'')
   \<and> calculate_site_difficulty ''Clay'' ''Fair'' = Inl (KeyError ''Fair'')
   \<and> calculate_labor_hours 600 ''Hospital'' 20 ''Good'' = Inl (KeyError ''Hospital'')
   \<and> calculate_labor_hours 600 ''Commercial'' 20 ''Stormy'' = Inl (KeyError ''Stormy'')"
proof -
  have 1: "''Hexagonal'' \<notin> set (keys SHAPE_COMPLEXITY)"
    by (simp add: keys_def SHAPE_COMPLEXITY_def)
  have 2: "''Chalk'' \<notin> set (keys soil_map)"
    by (simp add: keys_def soil_map_def)
  have 3: "''Clay'' \<in> set (keys soil_map) \<and> ''Fair'' \<notin> set (keys access_map)"
    by (simp add: keys_def soil_map_def access_map_def)
  have 4: "''Hospital'' \<notin> set (keys LABOR_PRODUCTIVITY_RATES)"
    by (simp add: keys_def LABOR_PRODUCTIVITY_RATES_def)
  have 5: "''Commercial'' \<in> set (keys LABOR_PRODUCTIVITY_RATES)"
    by (simp add: keys_def LABOR_PRODUCTIVITY_RATES_def)
  have 6: "wf = [(''Good'', 1.0), (''Average'', 0.9), (''Poor'', 0.8)]
             \<Longrightarrow> ''Stormy'' \<notin> set (keys wf)" for wf :: "(string \<times> real) list"
    by (simp add: keys_def)
  from lookups_fail_iff_key_missing [of 20 15 2 "''Hexagonal''" "''Chalk''" "''Good''"
         600 "''Hospital''" 20 "''Good''"] 1 2 4
  have a: "calculate_gfa 20 15 2 ''Hexagonal'' = Inl (KeyError ''Hexagonal'')
         \<and> calculate_site_difficulty ''Chalk'' ''Good'' = Inl (KeyError ''Chalk'')
         \<and> calculate_labor_hours 600 ''Hospital'' 20 ''Good'' = Inl (KeyError ''Hospital'')"
    by blast
  from lookups_fail_iff_key_missing [of 20 15 2 "''Hexagonal''" "''Clay''" "''Fair''"
         600 "''Commercial''" 20 "''Stormy''"] 3 5 6 weather_table
  have b: "calculate_site_difficulty ''Clay'' ''Fair'' = Inl (KeyError ''Fair'')
         \<and> calculate_labor_hours 600 ''Commercial'' 20 ''Stormy'' = Inl (KeyError ''Stormy'')"
    by force
  from a b show ?thesis
    by simp
qed

section \<open>Cost breakdown\<close>

lemma py_sum5: "py_sum [a, b, c, d, e] = a + b + c + d + e"
  by (simp add: py_sum_def)

lemma material_lines_cases:
  "material_lines cement blocks steel sand granite ''Residential'' a =
     Inr [cement * 0.5 * a, blocks * 10 * a, steel * 0.025 * a, sand * 0.05 * a,
          granite * 0.03 * a]"
  "material_lines cement blocks steel sand granite ''Commercial'' a =
     Inr [cement * 0.7 * a, blocks * 15 * a, steel * 0.04 * a, sand * 0.07 * a,
          granite * 0.05 * a]"
  "material_lines cement blocks steel sand granite ''Industrial'' a =
     Inr [cement * 1.0 * a, blocks * 20 * a, steel * 0.06 * a, sand * 0.10 * a,
          granite * 0.08 * a]"
  by (simp_all add: material_lines_def MATERIAL_RATES_def run)

lemma material_lines_eq:
  assumes "map_of MATERIAL_RATES bt = Some rates"
      and "map_of rates ''cement'' = Some r_cement"
      and "map_of rates ''blocks'' = Some r_blocks"
      and "map_of rates ''steel'' = Some r_steel"
      and "map_of rates ''sand'' = Some r_sand"
      and "map_of rates ''granite'' = Some r_granite"
  shows "material_lines cement blocks steel sand granite bt a =
           Inr [cement * r_cement * a, blocks * r_blocks * a, steel * r_steel * a,
                sand * r_sand * a, granite * r_granite * a]"
  using assms by (simp add: material_lines_def getitem_map_of and_then_Inr)

lemma material_rates_recognised:
  assumes "bt \<in> {''Residential'', ''Commercial'', ''Industrial''}"
  shows "\<exists>rates r_cement r_blocks r_steel r_sand r_granite.
           map_of MATERIAL_RATES bt = Some rates
         \<and> map_of rates ''cement'' = Some r_cement \<and> 0 < r_cement
         \<and> map_of rates ''blocks'' = Some r_blocks \<and> 0 < r_blocks
         \<and> map_of rates ''steel'' = Some r_steel \<and> 0 < r_steel
         \<and> map_of rates ''sand'' = Some r_sand \<and> 0 < r_sand
         \<and> map_of rates ''granite'' = Some r_granite \<and> 0 < r_granite"
proof -
  from assms consider "bt = ''Residential''" | "bt = ''Commercial''" | "bt = ''Industrial''"
    by auto
  then show ?thesis
  proof cases
    case 1
    show ?thesis
      unfolding 1
      by (rule exI [of _ "[(''cement'', 0.5), (''blocks'', 10), (''steel'', 0.025),
                           (''sand'', 0.05), (''granite'', 0.03)]"],
          rule exI [of _ "0.5"], rule exI [of _ "10"], rule exI [of _ "0.025"],
          rule exI [of _ "0.05"], rule exI [of _ "0.03"])
         (simp add: MATERIAL_RATES_def)
  next
    case 2
    show ?thesis
      unfolding 2
      by (rule exI [of _ "[(''cement'', 0.7), (''blocks'', 15), (''steel'', 0.04),
                           (''sand'', 0.07), (''granite'', 0.05)]"],
          rule exI [of _ "0.7"], rule exI [of _ "15"], rule exI [of _ "0.04"],
          rule exI [of _ "0.07"], rule exI [of _ "0.05"])
         (simp add: MATERIAL_RATES_def)
  next
    case 3
    show ?thesis
      unfolding 3
      by (rule exI [of _ "[(''cement'', 1.0), (''blocks'', 20), (''steel'', 0.06),
                           (''sand'', 0.10), (''granite'', 0.08)]"],
          rule exI [of _ "1.0"], rule exI [of _ "20"], rule exI [of _ "0.06"],
          rule exI [of _ "0.10"], rule exI [of _ "0.08"])
         (simp add: MATERIAL_RATES_def)
  qed
qed

lemma plant_rate_recognised:
  assumes "bt \<in> {''Residential'', ''Commercial'', ''Industrial''}"
  shows "\<exists>rate. map_of PLANT_RATES bt = Some rate \<and> 0 < rate"
proof -
  from assms consider "bt = ''Residential''" | "bt = ''Commercial''" | "bt = ''Industrial''"
    by auto
  then show ?thesis
  proof cases
    case 1
    show ?thesis
      unfolding 1 by (intro exI [of _ "0.08"]) (simp add: PLANT_RATES_def)
  next
    case 2
    show ?thesis
      unfolding 2 by (intro exI [of _ "0.12"]) (simp add: PLANT_RATES_def)
  next
    case 3
    show ?thesis
      unfolding 3 by (intro exI [of _ "0.18"]) (simp add: PLANT_RATES_def)
  qed
qed

lemma plant_cost_eq:
  "map_of PLANT_RATES bt = Some rate \<Longrightarrow> plant_cost m l bt = Inr ((m + l) * rate)"
  by (simp add: plant_cost_def getitem_map_of and_then_Inr)

lemma labor_cost_eq: "labor_cost h r = h * r * 1.15"
  by (simp add: labor_cost_def OVERHEAD_PROFIT_def)

text \<open>
  Claim C1. For a building type among Residential, Commercial and Industrial, positive
  unit prices, labor hours, labor rate and area: the material cost is the sum over
  cement, blocks, steel, sand and granite of unit price \<times> rate of the building type
  \<times> area; the labor cost is labor hours \<times> hourly rate \<times> 1.15; the plant cost is
  (material cost + labor cost) \<times> plant rate of the building type; the base cost is
  material + labor + plant; and all four are non-negative. For Residential, a cement
  price of 9800 and an area of 600 the cement line is 9800 \<times> 0.5 \<times> 600 = 2,940,000.
\<close>

theorem cost_breakdown_formulas:
  assumes "building_type \<in> {''Residential'', ''Commercial'', ''Industrial''}"
      and "0 < cement" and "0 < blocks" and "0 < steel" and "0 < sand" and "0 < granite"
      and "0 < labor_hours" and "0 < labor_rate" and "0 < current_gfa"
  shows "\<exists>rates r_cement r_blocks r_steel r_sand r_granite plant_rate m l p.
           map_of MATERIAL_RATES building_type = Some rates
         \<and> map_of rates ''cement'' = Some r_cement
         \<and> map_of rates ''blocks'' = Some r_blocks
         \<and> map_of rates ''steel'' = Some r_steel
         \<and> map_of rates ''sand'' = Some r_sand
         \<and> map_of rates ''granite'' = Some r_granite
         \<and> map_of PLANT_RATES building_type = Some plant_rate
         \<and> material_cost cement blocks steel sand granite building_type current_gfa = Inr m
         \<and> m = cement * r_cement * current_gfa + blocks * r_blocks * current_gfa
               + steel * r_steel * current_gfa + sand * r_sand * current_gfa
               + granite * r_granite * current_gfa
         \<and> labor_cost labor_hours labor_rate = l
         \<and> l = labor_hours * labor_rate * 1.15
         \<and> plant_cost m l building_type = Inr p
         \<and> p = (m + l) * plant_rate
         \<and> base_cost m l p = m + l + p
         \<and> 0 \<le> m \<and> 0 \<le> l \<and> 0 \<le> p \<and> 0 \<le> base_cost m l p
         \<and> (\<exists>rest. material_lines 9800 blocks steel sand granite ''Residential'' 600
                      = Inr (9800 * 0.5 * 600 # rest))
         \<and> (9800 * 0.5 * 600 :: real) = 2940000"
proof -
  from material_rates_recognised [OF assms(1)]
  obtain rates r_cement r_blocks r_steel r_sand r_granite
    where rates: "map_of MATERIAL_RATES building_type = Some rates"
      and rc: "map_of rates ''cement'' = Some r_cement" "0 < r_cement"
      and rb: "map_of rates ''blocks'' = Some r_blocks" "0 < r_blocks"
      and rs: "map_of rates ''steel'' = Some r_steel" "0 < r_steel"
      and ra: "map_of rates ''sand'' = Some r_sand" "0 < r_sand"
      and rg: "map_of rates ''granite'' = Some r_granite" "0 < r_granite"
    by blast
  from plant_rate_recognised [OF assms(1)]
  obtain plant_rate where pr: "map_of PLANT_RATES building_type = Some plant_rate"
    and pr_pos: "0 < plant_rate"
    by blast
  define m where "m = cement * r_cement * current_gfa + blocks * r_blocks * current_gfa
               + steel * r_steel * current_gfa + sand * r_sand * current_gfa
               + granite * r_granite * current_gfa"
  define l where "l = labor_hours * labor_rate * 1.15"
  define p where "p = (m + l) * plant_rate"
  have mc: "material_cost cement blocks steel sand granite building_type current_gfa = Inr m"
    by (simp add: material_cost_def and_then_Inr py_sum5 m_def
          material_lines_eq [OF rates rc(1) rb(1) rs(1) ra(1) rg(1)])
  have lc: "labor_cost labor_hours labor_rate = l"
    by (simp add: labor_cost_eq l_def)
  have pc: "plant_cost m l building_type = Inr p"
    by (simp add: plant_cost_eq [OF pr] p_def)
  have bc: "base_cost m l p = m + l + p"
    by (simp add: base_cost_def)
  have m_pos: "0 \<le> m"
    unfolding m_def using assms rc(2) rb(2) rs(2) ra(2) rg(2)
    by (intro add_nonneg_nonneg mult_nonneg_nonneg) simp_all
  have l_pos: "0 \<le> l"
    unfolding l_def using assms by (intro mult_nonneg_nonneg) simp_all
  have p_pos: "0 \<le> p"
    unfolding p_def using m_pos l_pos pr_pos by (intro mult_nonneg_nonneg) simp_all
  have b_pos: "0 \<le> base_cost m l p"
    unfolding bc using m_pos l_pos p_pos by simp
  have ex: "\<exists>rest. material_lines 9800 blocks steel sand granite ''Residential'' 600
                      = Inr (9800 * 0.5 * 600 # rest)"
    by (simp add: material_lines_cases(1))
  have num: "(9800 * 0.5 * 600 :: real) = 2940000"
    by simp
  from rates rc(1) rb(1) rs(1) ra(1) rg(1) pr mc m_def lc l_def pc p_def bc
       m_pos l_pos p_pos b_pos ex num
  show ?thesis
    by blast
qed

theorem cost_breakdown_formulas_witness:
  "\<exists>m l p. material_cost 9800 600 850000 35000 19500 ''Residential'' 600 = Inr m
     \<and> labor_cost 2820 1000 = l \<and> l = 2820 * 1000 * 1.15
     \<and> plant_cost m l ''Residential'' = Inr p
     \<and> base_cost m l p = m + l + p
     \<and> 0 \<le> m \<and> 0 \<le> l \<and> 0 \<le> p"
proof -
  have 1: "''Residential'' \<in> {''Residential'', ''Commercial'', ''Industrial''}"
    by simp
  from cost_breakdown_formulas [OF 1, of 9800 600 850000 35000 19500 2820 1000 600]
  show ?thesis
    by (simp only: zero_less_numeral simp_thms) blast
qed

section \<open>The feature record and the prediction\<close>

lemma and_then_eq_Inr: "and_then r f = Inr y \<longleftrightarrow> (\<exists>v. r = Inr v \<and> f v = Inr y)"
  by (cases r) (simp_all add: and_then_def)

lemma index0_eq_Inr: "index0 xs = Inr y \<longleftrightarrow> xs \<noteq> [] \<and> y = hd xs"
  by (cases xs) (auto simp: index0_def)

lemma total_cost_eq_Inr:
  "total_cost transform predict features = Inr y
     \<longleftrightarrow> predict (transform features) \<noteq> [] \<and> y = hd (predict (transform features))"
  by (simp add: total_cost_def index0_eq_Inr)

lemma input_data_columns:
  "keys (input_data len breadth storeys shape building_type location soil access weather
           cement blocks steel sand granite labor_rate lc workers permit sd sc vc) =
     [''Length'', ''Breadth'', ''Storeys'', ''Shape'', ''Type'', ''Location'', ''Soil'',
      ''Access'', ''Weather'', ''Cement_Price'', ''Block_Price'', ''Steel_Price'',
      ''Sand_Price'', ''Granite_Price'', ''Labor_Rate'', ''Labor_Cost'', ''Workers'',
      ''Permit_Months'', ''Site_Difficulty'', ''Shape_Complexity'', ''Vertical_Complexity'']"
  by (simp add: input_data_def keys_def)

lemma input_data_length:
  "length (input_data len breadth storeys shape building_type location soil access weather
             cement blocks steel sand granite labor_rate lc workers permit sd sc vc) = 21"
  by (simp add: input_data_def)

lemma input_data_vertical:
  "map_of (input_data len breadth storeys shape building_type location soil access weather
             cement blocks steel sand granite labor_rate lc workers permit sd sc vc)
          ''Vertical_Complexity'' = Some (Num vc)"
  by (simp add: input_data_def)

text \<open>What a run of the handler that raises nothing has computed.\<close>

lemma on_submit_Inr:
  assumes "on_submit transform predict len breadth storeys shape building_type location
             soil access weather cement blocks steel sand granite labor_rate workers permit
           = Inr r"
  shows "\<exists>gfa hours difficulty complexity.
           calculate_gfa len breadth storeys shape = Inr gfa
         \<and> calculate_labor_hours gfa building_type workers weather = Inr hours
         \<and> calculate_site_difficulty soil access = Inr difficulty
         \<and> shape_complexity shape = Inr complexity
         \<and> est_input_data r =
             input_data len breadth storeys shape building_type location soil access weather
               cement blocks steel sand granite labor_rate (labor_cost hours labor_rate)
               workers permit difficulty complexity (vertical_complexity storeys)
         \<and> total_cost transform predict (est_input_data r) = Inr (est_total_cost r)
         \<and> material_cost cement blocks steel sand granite building_type gfa
             = Inr (est_material_cost r)
         \<and> est_labor_cost r = labor_cost hours labor_rate
         \<and> plant_cost (est_material_cost r) (est_labor_cost r) building_type
             = Inr (est_plant_cost r)
         \<and> est_base_cost r = base_cost (est_material_cost r) (est_labor_cost r) (est_plant_cost r)
         \<and> risk_components (est_base_cost r) = Inr (est_risk_components r)"
  using assms unfolding on_submit_def Let_def and_then_eq_Inr by force

lemma shape_multiplier_positive: "map_of SHAPE_COMPLEXITY shape = Some m \<Longrightarrow> 0 < m"
  by (auto simp: SHAPE_COMPLEXITY_def split: if_splits)

lemma base_hours_nonzero:
  assumes "bt \<in> {''Residential'', ''Commercial'', ''Industrial''}" and "gfa \<noteq> 0"
  shows "\<exists>bh. base_hours gfa bt = Inr bh \<and> bh \<noteq> 0"
proof -
  from assms(1) consider "bt = ''Residential''" | "bt = ''Commercial''" | "bt = ''Industrial''"
    by auto
  then show ?thesis
  proof cases
    case 1
    with assms(2) show ?thesis
      by (intro exI [of _ "4.7 * gfa"]) (simp add: base_hours_cases(1))
  next
    case 2
    with assms(2) show ?thesis
      by (intro exI [of _ "6 * gfa"]) (simp add: base_hours_cases(2))
  next
    case 3
    with assms(2) show ?thesis
      by (intro exI [of _ "7.5 * gfa"]) (simp add: base_hours_cases(3))
  qed
qed

lemma risk_components_Inr: "\<exists>rc. risk_components b = Inr rc"
  by (simp add: risk_components_def RISK_FACTORS_def run)

text \<open>
  When the handler raises nothing: every key is one of its table, no dimension and no
  worker count is zero (else a division of lines 168 and 169 raises), and the model
  predicts at least one value.
\<close>

lemma on_submit_succeeds:
  assumes shape: "shape \<in> set (keys SHAPE_COMPLEXITY)"
      and bt: "building_type \<in> {''Residential'', ''Commercial'', ''Industrial''}"
      and soil: "soil \<in> set (keys soil_map)"
      and access: "access \<in> set (keys access_map)"
      and weather: "weather \<in> {''Good'', ''Average'', ''Poor''}"
      and dims: "len \<noteq> 0" "breadth \<noteq> 0" "storeys \<noteq> 0"
      and workers: "workers \<noteq> 0"
      and predict: "\<And>x. predict x \<noteq> []"
  shows "\<exists>r. on_submit transform predict len breadth storeys shape building_type location
               soil access weather cement blocks steel sand granite labor_rate workers permit
             = Inr r"
proof -
  from getitem_present [OF shape]
  obtain m where m: "getitem SHAPE_COMPLEXITY shape = Inr m"
    and m': "map_of SHAPE_COMPLEXITY shape = Some m"
    by blast
  from shape_multiplier_positive [OF m'] have "m \<noteq> 0"
    by simp
  define gfa where "gfa = len * breadth * storeys * m"
  have gfa: "calculate_gfa len breadth storeys shape = Inr gfa"
    by (simp add: calculate_gfa_def m and_then_Inr gfa_def)
  have gfa_nz: "gfa \<noteq> 0"
    using dims \<open>m \<noteq> 0\<close> by (simp add: gfa_def)
  from base_hours_nonzero [OF bt gfa_nz]
  obtain bh where bh: "base_hours gfa building_type = Inr bh" and bh_nz: "bh \<noteq> 0"
    by blast
  from weather_efficiency_recognised [OF weather]
  obtain we where we: "weather_efficiency weather = Inr we" and "0.8 \<le> we"
    by blast
  then have we_nz: "we \<noteq> 0"
    by auto
  have ce_nz: "spec_crew_efficiency workers \<noteq> 0"
    using spec_crew_efficiency_bounds(1) [of workers] by simp
  define hours where "hours = bh / (spec_crew_efficiency workers * we)"
  have hours: "calculate_labor_hours gfa building_type workers weather = Inr hours"
    unfolding hours_def by (rule labor_hours_closed [OF bh we we_nz])
  have hours_nz: "hours \<noteq> 0"
    using bh_nz we_nz ce_nz by (simp add: hours_def)
  have prod: "labor_productivity gfa hours workers = Inr (gfa / (hours * of_int workers))"
    using hours_nz workers by (simp add: labor_productivity_def truediv_def)
  have dur: "project_duration hours workers
               = Inr (hours / (of_int workers * STANDARD_WORK_HOURS))"
    using workers by (simp add: project_duration_def truediv_def STANDARD_WORK_HOURS_def)
  from getitem_present [OF soil] obtain s where s: "getitem soil_map soil = Inr s"
    by blast
  from getitem_present [OF access] obtain a where a: "getitem access_map access = Inr a"
    by blast
  have diff: "calculate_site_difficulty soil access = Inr (s * a)"
    by (simp add: calculate_site_difficulty_def s a and_then_Inr)
  have compl: "shape_complexity shape = Inr m"
    by (simp add: shape_complexity_def m)
  have total: "total_cost transform predict x = Inr (hd (predict (transform x)))" for x
    using predict [of "transform x"] by (simp add: total_cost_eq_Inr)
  from material_rates_recognised [OF bt]
  obtain rates r_cement r_blocks r_steel r_sand r_granite
    where "map_of MATERIAL_RATES building_type = Some rates"
      and "map_of rates ''cement'' = Some r_cement"
      and "map_of rates ''blocks'' = Some r_blocks"
      and "map_of rates ''steel'' = Some r_steel"
      and "map_of rates ''sand'' = Some r_sand"
      and "map_of rates ''granite'' = Some r_granite"
    by blast
  from material_lines_eq [OF this]
  obtain material
    where material: "material_cost cement blocks steel sand granite building_type gfa
                       = Inr material"
    by (simp add: material_cost_def and_then_Inr)
  from plant_rate_recognised [OF bt]
  obtain rate where "map_of PLANT_RATES building_type = Some rate"
    by blast
  from plant_cost_eq [OF this]
  obtain plant
    where plant: "plant_cost material (labor_cost hours labor_rate) building_type = Inr plant"
    by blast
  from risk_components_Inr
  obtain risks
    where risks: "risk_components (base_cost material (labor_cost hours labor_rate) plant)
                    = Inr risks"
    by blast
  show ?thesis
    by (simp add: on_submit_def Let_def gfa hours prod dur diff compl total material plant
          risks and_then_Inr)
qed

text \<open>
  Claim C9. Whenever the handler reaches the model, the cell \<^verbatim>\<open>Vertical_Complexity\<close> of
  the feature record is the storey count times 0.25, whatever the storey count; and the
  handler does reach the model for all recognised keys, non-zero dimensions and worker
  count, and a model that predicts a value.
\<close>

theorem vertical_complexity_feature:
  "vertical_complexity storeys = storeys * 0.25
   \<and> (on_submit transform predict len breadth storeys shape building_type location
         soil access weather cement blocks steel sand granite labor_rate workers permit
       = Inr r
       \<longrightarrow> map_of (est_input_data r) ''Vertical_Complexity'' = Some (Num (storeys * 0.25)))
   \<and> (shape \<in> set (keys SHAPE_COMPLEXITY)
       \<and> building_type \<in> {''Residential'', ''Commercial'', ''Industrial''}
       \<and> soil \<in> set (keys soil_map) \<and> access \<in> set (keys access_map)
       \<and> weather \<in> {''Good'', ''Average'', ''Poor''}
       \<and> len \<noteq> 0 \<and> breadth \<noteq> 0 \<and> storeys \<noteq> 0 \<and> workers \<noteq> 0
       \<and> (\<forall>x. predict x \<noteq> [])
       \<longrightarrow> (\<exists>r'. on_submit transform predict len breadth storeys shape building_type location
                    soil access weather cement blocks steel sand granite labor_rate workers
                    permit
                  = Inr r'))"
proof (intro conjI impI)
  show "vertical_complexity storeys = storeys * 0.25"
    by (simp add: vertical_complexity_def)
next
  assume "on_submit transform predict len breadth storeys shape building_type location
            soil access weather cement blocks steel sand granite labor_rate workers permit
          = Inr r"
  from on_submit_Inr [OF this]
  show "map_of (est_input_data r) ''Vertical_Complexity'' = Some (Num (storeys * 0.25))"
    by (auto simp: input_data_vertical vertical_complexity_def)
next
  assume "shape \<in> set (keys SHAPE_COMPLEXITY)
       \<and> building_type \<in> {''Residential'', ''Commercial'', ''Industrial''}
       \<and> soil \<in> set (keys soil_map) \<and> access \<in> set (keys access_map)
       \<and> weather \<in> {''Good'', ''Average'', ''Poor''}
       \<and> len \<noteq> 0 \<and> breadth \<noteq> 0 \<and> storeys \<noteq> 0 \<and> workers \<noteq> 0
       \<and> (\<forall>x. predict x \<noteq> [])"
  then show "\<exists>r'. on_submit transform predict len breadth storeys shape building_type location
                    soil access weather cement blocks steel sand granite labor_rate workers
                    permit
                  = Inr r'"
    by (intro on_submit_succeeds) simp_all
qed

theorem vertical_complexity_feature_witness:
  "\<exists>r. on_submit (\<lambda>x. x) (\<lambda>x. [0]) 20 15 2 ''Rectangular'' ''Residential'' ''Urban''
          ''Rocky'' ''Good'' ''Good'' 9800 600 850000 35000 19500 1000 20 3 = Inr r
       \<and> map_of (est_input_data r) ''Vertical_Complexity'' = Some (Num 0.5)"
proof -
  have ok: "''Rectangular'' \<in> set (keys SHAPE_COMPLEXITY)
       \<and> ''Residential'' \<in> {''Residential'', ''Commercial'', ''Industrial''}
       \<and> ''Rocky'' \<in> set (keys soil_map) \<and> ''Good'' \<in> set (keys access_map)
       \<and> ''Good'' \<in> {''Good'', ''Average'', ''Poor''}
       \<and> (20::real) \<noteq> 0 \<and> (15::real) \<noteq> 0 \<and> (2::real) \<noteq> 0 \<and> (20::int) \<noteq> 0
       \<and> (\<forall>x::(string \<times> cell) list. [0::real] \<noteq> [])"
    by (simp add: keys_def SHAPE_COMPLEXITY_def soil_map_def access_map_def)
  note inst = vertical_complexity_feature [of 2 "\<lambda>x. x" "\<lambda>x. [0]" 20 15 "''Rectangular''"
      "''Residential''" "''Urban''" "''Rocky''" "''Good''" "''Good''" 9800 600 850000 35000
      19500 1000 20 3]
  from inst ok obtain r
    where r: "on_submit (\<lambda>x. x) (\<lambda>x. [0]) 20 15 2 ''Rectangular'' ''Residential'' ''Urban''
          ''Rocky'' ''Good'' ''Good'' 9800 600 850000 35000 19500 1000 20 3 = Inr r"
    by blast
  with inst [of r] have "map_of (est_input_data r) ''Vertical_Complexity'' = Some (Num (2 * 0.25))"
    by blast
  with r show ?thesis
    by auto
qed

text \<open>
  Claim C7, as the code has it. The feature record has 21 named fields, not 20: the
  columns Length, Breadth, Storeys, Shape, Type, Location, Soil, Access, Weather, the
  five material prices, Labor_Rate, Labor_Cost, Workers, Permit_Months and the three
  factors Site_Difficulty, Shape_Complexity and Vertical_Complexity. Whenever the handler
  raises nothing, the record it leaves is that one, filled from the form and the three
  calculators, and the total cost is the first prediction of the model on the
  preprocessor's output for that record; and the handler raises nothing for all
  recognised keys, non-zero dimensions and worker count, and a model that predicts a
  value.
\<close>

theorem feature_record_and_prediction:
  "(on_submit transform predict len breadth storeys shape building_type location
      soil access weather cement blocks steel sand granite labor_rate workers permit
    = Inr r
    \<longrightarrow> length (est_input_data r) = 21
      \<and> keys (est_input_data r) =
          [''Length'', ''Breadth'', ''Storeys'', ''Shape'', ''Type'', ''Location'', ''Soil'',
           ''Access'', ''Weather'', ''Cement_Price'', ''Block_Price'', ''Steel_Price'',
           ''Sand_Price'', ''Granite_Price'', ''Labor_Rate'', ''Labor_Cost'', ''Workers'',
           ''Permit_Months'', ''Site_Difficulty'', ''Shape_Complexity'',
           ''Vertical_Complexity'']
      \<and> (\<exists>gfa hours difficulty complexity.
            calculate_gfa len breadth storeys shape = Inr gfa
          \<and> calculate_labor_hours gfa building_type workers weather = Inr hours
          \<and> calculate_site_difficulty soil access = Inr difficulty
          \<and> getitem SHAPE_COMPLEXITY shape = Inr complexity
          \<and> est_input_data r =
              [(''Length'', Num len), (''Breadth'', Num breadth), (''Storeys'', Num storeys),
               (''Shape'', Str shape), (''Type'', Str building_type),
               (''Location'', Str location), (''Soil'', Str soil), (''Access'', Str access),
               (''Weather'', Str weather), (''Cement_Price'', Num cement),
               (''Block_Price'', Num blocks), (''Steel_Price'', Num steel),
               (''Sand_Price'', Num sand), (''Granite_Price'', Num granite),
               (''Labor_Rate'', Num labor_rate),
               (''Labor_Cost'', Num (labor_cost hours labor_rate)),
               (''Workers'', Num (of_int workers)), (''Permit_Months'', Num permit),
               (''Site_Difficulty'', Num difficulty), (''Shape_Complexity'', Num complexity),
               (''Vertical_Complexity'', Num (vertical_complexity storeys))])
      \<and> predict (transform (est_input_data r)) \<noteq> []
      \<and> est_total_cost r = hd (predict (transform (est_input_data r))))
   \<and> (shape \<in> set (keys SHAPE_COMPLEXITY)
       \<and> building_type \<in> {''Residential'', ''Commercial'', ''Industrial''}
       \<and> soil \<in> set (keys soil_map) \<and> access \<in> set (keys access_map)
       \<and> weather \<in> {''Good'', ''Average'', ''Poor''}
       \<and> len \<noteq> 0 \<and> breadth \<noteq> 0 \<and> storeys \<noteq> 0 \<and> workers \<noteq> 0
       \<and> (\<forall>x. predict x \<noteq> [])
       \<longrightarrow> (\<exists>r'. on_submit transform predict len breadth storeys shape building_type location
                    soil access weather cement blocks steel sand granite labor_rate workers
                    permit
                  = Inr r'))"
proof (intro conjI impI)
  assume run: "on_submit transform predict len breadth storeys shape building_type location
            soil access weather cement blocks steel sand granite labor_rate workers permit
          = Inr r"
  from on_submit_Inr [OF run]
  obtain gfa hours difficulty complexity
    where gfa: "calculate_gfa len breadth storeys shape = Inr gfa"
      and hours: "calculate_labor_hours gfa building_type workers weather = Inr hours"
      and difficulty: "calculate_site_difficulty soil access = Inr difficulty"
      and complexity: "shape_complexity shape = Inr complexity"
      and features: "est_input_data r =
             input_data len breadth storeys shape building_type location soil access weather
               cement blocks steel sand granite labor_rate (labor_cost hours labor_rate)
               workers permit difficulty complexity (vertical_complexity storeys)"
      and total: "total_cost transform predict (est_input_data r) = Inr (est_total_cost r)"
    by blast
  show "length (est_input_data r) = 21"
    unfolding features by (rule input_data_length)
  show "keys (est_input_data r) =
          [''Length'', ''Breadth'', ''Storeys'', ''Shape'', ''Type'', ''Location'', ''Soil'',
           ''Access'', ''Weather'', ''Cement_Price'', ''Block_Price'', ''Steel_Price'',
           ''Sand_Price'', ''Granite_Price'', ''Labor_Rate'', ''Labor_Cost'', ''Workers'',
           ''Permit_Months'', ''Site_Difficulty'', ''Shape_Complexity'',
           ''Vertical_Complexity'']"
    unfolding features by (rule input_data_columns)
  from total show "predict (transform (est_input_data r)) \<noteq> []"
    by (simp add: total_cost_eq_Inr)
  from total show "est_total_cost r = hd (predict (transform (est_input_data r)))"
    by (simp add: total_cost_eq_Inr)
  from complexity have "getitem SHAPE_COMPLEXITY shape = Inr complexity"
    by (simp add: shape_complexity_def)
  with gfa hours difficulty features
  show "\<exists>gfa hours difficulty complexity.
            calculate_gfa len breadth storeys shape = Inr gfa
          \<and> calculate_labor_hours gfa building_type workers weather = Inr hours
          \<and> calculate_site_difficulty soil access = Inr difficulty
          \<and> getitem SHAPE_COMPLEXITY shape = Inr complexity
          \<and> est_input_data r =
              [(''Length'', Num len), (''Breadth'', Num breadth), (''Storeys'', Num storeys),
               (''Shape'', Str shape), (''Type'', Str building_type),
               (''Location'', Str location), (''Soil'', Str soil), (''Access'', Str access),
               (''Weather'', Str weather), (''Cement_Price'', Num cement),
               (''Block_Price'', Num blocks), (''Steel_Price'', Num steel),
               (''Sand_Price'', Num sand), (''Granite_Price'', Num granite),
               (''Labor_Rate'', Num labor_rate),
               (''Labor_Cost'', Num (labor_cost hours labor_rate)),
               (''Workers'', Num (of_int workers)), (''Permit_Months'', Num permit),
               (''Site_Difficulty'', Num difficulty), (''Shape_Complexity'', Num complexity),
               (''Vertical_Complexity'', Num (vertical_complexity storeys))]"
    unfolding input_data_def by blast
next
  assume "shape \<in> set (keys SHAPE_COMPLEXITY)
       \<and> building_type \<in> {''Residential'', ''Commercial'', ''Industrial''}
       \<and> soil \<in> set (keys soil_map) \<and> access \<in> set (keys access_map)
       \<and> weather \<in> {''Good'', ''Average'', ''Poor''}
       \<and> len \<noteq> 0 \<and> breadth \<noteq> 0 \<and> storeys \<noteq> 0 \<and> workers \<noteq> 0
       \<and> (\<forall>x. predict x \<noteq> [])"
  then show "\<exists>r'. on_submit transform predict len breadth storeys shape building_type location
                    soil access weather cement blocks steel sand granite labor_rate workers
                    permit
                  = Inr r'"
    by (intro on_submit_succeeds) simp_all
qed

theorem feature_record_and_prediction_witness:
  "\<exists>r. on_submit (\<lambda>x. x) (\<lambda>x. [of_nat (length x)]) 20 15 2 ''Rectangular'' ''Residential''
          ''Urban'' ''Rocky'' ''Good'' ''Good'' 9800 600 850000 35000 19500 1000 20 3 = Inr r
       \<and> length (est_input_data r) = 21 \<and> est_total_cost r = 21"
proof -
  have ok: "''Rectangular'' \<in> set (keys SHAPE_COMPLEXITY)
       \<and> ''Residential'' \<in> {''Residential'', ''Commercial'', ''Industrial''}
       \<and> ''Rocky'' \<in> set (keys soil_map) \<and> ''Good'' \<in> set (keys access_map)
       \<and> ''Good'' \<in> {''Good'', ''Average'', ''Poor''}
       \<and> (20::real) \<noteq> 0 \<and> (15::real) \<noteq> 0 \<and> (2::real) \<noteq> 0 \<and> (20::int) \<noteq> 0
       \<and> (\<forall>x::(string \<times> cell) list. [of_nat (length x) :: real] \<noteq> [])"
    by (simp add: keys_def SHAPE_COMPLEXITY_def soil_map_def access_map_def)
  note inst = feature_record_and_prediction [of "\<lambda>x. x" "\<lambda>x. [of_nat (length x)]" 20 15 2
      "''Rectangular''" "''Residential''" "''Urban''" "''Rocky''" "''Good''" "''Good''"
      9800 600 850000 35000 19500 1000 20 3]
  from inst ok obtain r
    where r: "on_submit (\<lambda>x. x) (\<lambda>x. [of_nat (length x)]) 20 15 2 ''Rectangular''
          ''Residential'' ''Urban'' ''Rocky'' ''Good'' ''Good'' 9800 600 850000 35000 19500
          1000 20 3 = Inr r"
    by blast
  with inst [of r] have "length (est_input_data r) = 21"
    and "est_total_cost r = hd [of_nat (length (est_input_data r))]"
    by blast+
  with r show ?thesis
    by auto
qed

text \<open>
  Against claim C7 as it is stated, with 20 fields: the record built from the defaults of
  the form has 21 fields.
\<close>

theorem feature_record_has_21_fields:
  "length (input_data 20 15 2 ''Rectangular'' ''Residential'' ''Urban'' ''Rocky'' ''Good''
             ''Good'' 9800 600 850000 35000 19500 1000 3243000 20 3 1.5 1 0.5) = 21
   \<and> length (input_data 20 15 2 ''Rectangular'' ''Residential'' ''Urban'' ''Rocky'' ''Good''
             ''Good'' 9800 600 850000 35000 19500 1000 3243000 20 3 1.5 1 0.5) \<noteq> 20"
  by (simp add: input_data_def)

section \<open>Rounding to binary64\<close>

lemma two_powi_less_iff: "(2::real) powi a < 2 powi b \<longleftrightarrow> a < b"
  by (metis linorder_not_less one_less_numeral_iff power_int_increasing
      power_int_strict_increasing semiring_norm(76) order_less_imp_le)

lemma two_powi_nat: "0 \<le> k \<Longrightarrow> (2::real) powi k = of_int (2 ^ nat k)"
  by (simp add: power_int_nonneg_exp)

lemma exponent_ge1:
  fixes x :: real
  assumes "1 \<le> \<bar>x\<bar>"
  shows "2 powi (bitlen \<lfloor>\<bar>x\<bar>\<rfloor> - 1) \<le> \<bar>x\<bar>" and "\<bar>x\<bar> < 2 powi (bitlen \<lfloor>\<bar>x\<bar>\<rfloor>)"
proof -
  let ?n = "\<lfloor>\<bar>x\<bar>\<rfloor>"
  from assms have n: "0 < ?n"
    by (simp add: zero_less_floor)
  from bitlen_bounds [OF n] have lo: "2 ^ nat (bitlen ?n - 1) \<le> ?n" and hi: "?n < 2 ^ nat (bitlen ?n)"
    by simp_all
  have b1: "1 \<le> bitlen ?n"
    using n by (simp add: bitlen_alt_def)
  have "(2::real) powi (bitlen ?n - 1) = of_int (2 ^ nat (bitlen ?n - 1))"
    using b1 by (intro two_powi_nat) simp
  also have "\<dots> \<le> of_int ?n"
    using lo by (simp only: of_int_le_iff)
  also have "\<dots> \<le> \<bar>x\<bar>"
    by (rule of_int_floor_le)
  finally show "2 powi (bitlen ?n - 1) \<le> \<bar>x\<bar>" .
  have "?n + 1 \<le> 2 ^ nat (bitlen ?n)"
    using hi by simp
  then have "real_of_int (?n + 1) \<le> of_int (2 ^ nat (bitlen ?n))"
    by (simp only: of_int_le_iff)
  moreover have "\<bar>x\<bar> < of_int (?n + 1)"
    by linarith
  ultimately have "\<bar>x\<bar> < of_int (2 ^ nat (bitlen ?n))"
    by (rule less_le_trans [rotated])
  also have "\<dots> = 2 powi (bitlen ?n)"
    using b1 by (intro two_powi_nat [symmetric]) simp
  finally show "\<bar>x\<bar> < 2 powi (bitlen ?n)" .
qed

lemma exponent_lt1:
  fixes x :: real
  assumes "x \<noteq> 0" and "\<bar>x\<bar> < 1"
  shows "2 powi (- bitlen (\<lceil>1 / \<bar>x\<bar>\<rceil> - 1)) \<le> \<bar>x\<bar>"
    and "\<bar>x\<bar> < 2 powi (- bitlen (\<lceil>1 / \<bar>x\<bar>\<rceil> - 1) + 1)"
proof -
  let ?y = "1 / \<bar>x\<bar>"
  let ?n = "\<lceil>?y\<rceil>"
  let ?k = "bitlen (?n - 1)"
  from assms have y1: "1 < ?y"
    by simp
  then have "1 < ?n"
    by (simp add: less_ceiling_iff)
  then have n: "0 < ?n - 1"
    by simp
  from bitlen_bounds [OF n] have lo: "2 ^ nat (?k - 1) \<le> ?n - 1" and hi: "?n - 1 < 2 ^ nat ?k"
    by simp_all
  have k1: "1 \<le> ?k"
    using n by (simp add: bitlen_alt_def)
  have xpos: "0 < \<bar>x\<bar>"
    using assms by simp
  \<comment> \<open>\<open>y \<le> n \<le> 2 ^ k\<close>\<close>
  have "?n \<le> 2 ^ nat ?k"
    using hi by simp
  then have "real_of_int ?n \<le> of_int (2 ^ nat ?k)"
    by (simp only: of_int_le_iff)
  moreover have "?y \<le> of_int ?n"
    by (rule le_of_int_ceiling)
  ultimately have "?y \<le> of_int (2 ^ nat ?k)"
    by linarith
  also have "\<dots> = 2 powi ?k"
    using k1 by (intro two_powi_nat [symmetric]) simp
  finally have up: "?y \<le> 2 powi ?k" .
  have "1 \<le> \<bar>x\<bar> * 2 powi ?k"
    using up xpos by (simp add: field_simps)
  then show "2 powi (- ?k) \<le> \<bar>x\<bar>"
    by (simp add: power_int_minus field_simps)
  \<comment> \<open>\<open>2 ^ (k - 1) \<le> n - 1 < y\<close>\<close>
  have "(2::real) powi (?k - 1) = of_int (2 ^ nat (?k - 1))"
    using k1 by (intro two_powi_nat) simp
  also have "\<dots> \<le> of_int (?n - 1)"
    using lo by (simp only: of_int_le_iff)
  also have "\<dots> < ?y"
    by linarith
  finally have down: "2 powi (?k - 1) < ?y" .
  have P: "(0::real) < 2 powi (?k - 1)"
    by simp
  have "\<bar>x\<bar> * 2 powi (?k - 1) < 1"
    using down xpos by (simp add: field_simps)
  with P have "\<bar>x\<bar> < 1 / 2 powi (?k - 1)"
    by (simp only: pos_less_divide_eq)
  moreover have "(2::real) powi (- ?k + 1) = 1 / 2 powi (?k - 1)"
    by (metis minus_diff_eq power_int_minus_divide uminus_add_conv_diff add.commute)
  ultimately show "\<bar>x\<bar> < 2 powi (- ?k + 1)"
    by (simp only:)
qed

lemma exponent_bounds:
  assumes "x \<noteq> 0"
  shows "2 powi (exponent x) \<le> \<bar>x\<bar>" and "\<bar>x\<bar> < 2 powi (exponent x + 1)"
  using assms exponent_ge1 [of x] exponent_lt1 [of x]
  by (auto simp: exponent_def not_le)

lemma exponent_eqI:
  assumes "2 powi k \<le> \<bar>x\<bar>" and "\<bar>x\<bar> < 2 powi (k + 1)"
  shows "exponent x = k"
proof -
  have "x \<noteq> 0"
    using assms(1) by (metis abs_zero not_le zero_less_numeral zero_less_power_int)
  note b = exponent_bounds [OF this]
  have "2 powi k < (2::real) powi (exponent x + 1)"
    using assms(1) b(2) by linarith
  moreover have "2 powi (exponent x) < (2::real) powi (k + 1)"
    using assms(2) b(1) by linarith
  ultimately show ?thesis
    by (simp add: two_powi_less_iff)
qed

lemma rne_error: "\<bar>of_int (rne y) - y\<bar> \<le> 1 / 2"
proof -
  have "of_int \<lfloor>y\<rfloor> \<le> y" "y < of_int \<lfloor>y\<rfloor> + 1"
    by linarith+
  then show ?thesis
    by (auto simp: rne_def Let_def)
qed

lemma rne_near:
  assumes "\<bar>y - of_int m\<bar> < 1 / 2"
  shows "rne y = m"
proof -
  have "\<bar>of_int (rne y) - y\<bar> \<le> 1 / 2"
    by (rule rne_error)
  with assms have "\<bar>real_of_int (rne y) - of_int m\<bar> < 1"
    by linarith
  then have "\<bar>real_of_int (rne y - m)\<bar> < 1"
    by simp
  then have "\<bar>rne y - m\<bar> < 1"
    by (metis of_int_abs of_int_less_iff of_int_1)
  then show ?thesis
    by simp
qed

lemma rne_tie_up:
  assumes "y = of_int m - 1 / 2" and "even m"
  shows "rne y = m"
proof -
  have "\<lfloor>y\<rfloor> = m - 1"
    unfolding assms(1) by linarith
  with assms show ?thesis
    by (simp add: rne_def Let_def)
qed

lemma rne_tie_down:
  assumes "y = of_int m + 1 / 2" and "even m"
  shows "rne y = m"
proof -
  have "\<lfloor>y\<rfloor> = m"
    unfolding assms(1) by linarith
  with assms show ?thesis
    by (simp add: rne_def Let_def)
qed

lemma round64_eqI:
  assumes "2 powi k \<le> \<bar>x\<bar>" and "\<bar>x\<bar> < 2 powi (k + 1)" and "- 1022 \<le> k"
      and "rne (x / 2 powi (k - 52)) = m"
  shows "round64 x = of_int m * 2 powi (k - 52)"
proof -
  have "x \<noteq> 0"
    using assms(1) by (metis abs_zero not_le zero_less_numeral zero_less_power_int)
  moreover have "exponent x = k"
    using assms(1,2) by (rule exponent_eqI)
  moreover have "max (k - 52) (- 1074) = k - 52"
    using assms(3) by simp
  ultimately show ?thesis
    using assms(4) by (simp add: round64_def Let_def)
qed

lemma round64_error:
  assumes "2 powi (- 1022) \<le> \<bar>x\<bar>"
  shows "\<bar>round64 x - x\<bar> \<le> \<bar>x\<bar> / 2 ^ 53"
proof -
  have nz: "x \<noteq> 0"
    using assms by (metis abs_zero not_le zero_less_numeral zero_less_power_int)
  define k where "k = exponent x"
  have lo: "2 powi k \<le> \<bar>x\<bar>" and hi: "\<bar>x\<bar> < 2 powi (k + 1)"
    using exponent_bounds [OF nz] by (simp_all add: k_def)
  have "2 powi (- 1022) < (2::real) powi (k + 1)"
    using assms hi by linarith
  then have "- 1022 < k + 1"
    by (simp only: two_powi_less_iff)
  then have k: "- 1022 \<le> k"
    by simp
  define p where "p = (2::real) powi (k - 52)"
  have p: "0 < p"
    by (simp add: p_def)
  have r: "round64 x = of_int (rne (x / p)) * p"
    using nz k by (simp add: round64_def Let_def k_def [symmetric] p_def)
  have "round64 x - x = (of_int (rne (x / p)) - x / p) * p"
    using p by (simp add: r left_diff_distrib)
  then have "\<bar>round64 x - x\<bar> = \<bar>of_int (rne (x / p)) - x / p\<bar> * p"
    using p by (simp add: abs_mult)
  also have "\<dots> \<le> 1 / 2 * p"
    using rne_error [of "x / p"] p by (intro mult_right_mono) simp_all
  also have "\<dots> = 2 powi k / 2 ^ 53"
    by (simp add: p_def power_int_diff)
  also have "\<dots> \<le> \<bar>x\<bar> / 2 ^ 53"
    using lo by (intro divide_right_mono) simp_all
  finally show ?thesis .
qed

lemma round64_bounds:
  assumes "2 powi (- 1022) \<le> x"
  shows "x * (1 - 1 / 2 ^ 53) \<le> round64 x" and "round64 x \<le> x * (1 + 1 / 2 ^ 53)"
proof -
  have "(0::real) < 2 powi (- 1022)"
    by simp
  with assms have pos: "0 < x"
    by linarith
  then have "\<bar>round64 x - x\<bar> \<le> x / 2 ^ 53"
    using round64_error [of x] assms by simp
  then have "x - round64 x \<le> x / 2 ^ 53" and "round64 x - x \<le> x / 2 ^ 53"
    by linarith+
  then show "x * (1 - 1 / 2 ^ 53) \<le> round64 x" and "round64 x \<le> x * (1 + 1 / 2 ^ 53)"
    by (simp_all add: algebra_simps)
qed

lemma round64_eval:
  assumes "- 1022 \<le> k" and "2 powi k \<le> \<bar>x\<bar>" and "\<bar>x\<bar> < 2 powi (k + 1)"
      and "\<bar>x / 2 powi (k - 52) - of_int m\<bar> < 1 / 2
           \<or> (x / 2 powi (k - 52) = of_int m + 1 / 2 \<and> even m)
           \<or> (x / 2 powi (k - 52) = of_int m - 1 / 2 \<and> even m)"
  shows "round64 x = of_int m * 2 powi (k - 52)"
proof -
  from assms(4) have "rne (x / 2 powi (k - 52)) = m"
    using rne_near rne_tie_up rne_tie_down by blast
  with assms(2,3,1) show ?thesis
    by (rule round64_eqI)
qed

text \<open>The doubles behind the literals of the tables, and the roundings used below.\<close>

lemma f64_1_5: "round64 (1.5) = 3 / 2 ^ 1"
  using round64_eval [of "0" "1.5" 6755399441055744] by simp

lemma f64_1_2: "round64 (1.2) = 5404319552844595 / 2 ^ 52"
  using round64_eval [of "0" "1.2" 5404319552844595] by simp

lemma f64_1_0: "round64 (1.0) = 1"
  using round64_eval [of "0" "1.0" 4503599627370496] by simp

lemma f64_1_4: "round64 (1.4) = 3152519739159347 / 2 ^ 51"
  using round64_eval [of "0" "1.4" 6305039478318694] by simp

lemma f64_1_1: "round64 (1.1) = 2476979795053773 / 2 ^ 51"
  using round64_eval [of "0" "1.1" 4953959590107546] by simp

lemma f64_2_1: "round64 (2.1) = 4728779608739021 / 2 ^ 51"
  using round64_eval [of "1" "2.1" 4728779608739021] by simp

lemma f64_0_075: "round64 (0.075) = 5404319552844595 / 2 ^ 56"
  using round64_eval [of "-4" "0.075" 5404319552844595] by simp

lemma f64_0_05: "round64 (0.05) = 3602879701896397 / 2 ^ 56"
  using round64_eval [of "-5" "0.05" 7205759403792794] by simp

lemma f64_0_02: "round64 (0.02) = 5764607523034235 / 2 ^ 58"
  using round64_eval [of "-6" "0.02" 5764607523034235] by simp

lemma f64_0_145: "round64 (0.145) = 5224175567749775 / 2 ^ 55"
  using round64_eval [of "-3" "0.145" 5224175567749775] by simp

lemma f64_7_cont: "round64 (7 * (5404319552844595 / 2 ^ 56)) = 4728779608739021 / 2 ^ 53"
  using round64_eval [of "-1" "7 * (5404319552844595 / 2 ^ 56)" 4728779608739021] by simp

lemma f64_7_prelim: "round64 (7 * (3602879701896397 / 2 ^ 56)) = 6305039478318695 / 2 ^ 54"
  using round64_eval [of "-2" "7 * (3602879701896397 / 2 ^ 56)" 6305039478318695] by simp

lemma f64_7_design: "round64 (7 * (5764607523034235 / 2 ^ 58)) = 1261007895663739 / 2 ^ 53"
  using round64_eval [of "-3" "7 * (5764607523034235 / 2 ^ 58)" 5044031582654956] by simp

lemma f64_7_sum1: "round64 (0 + (4728779608739021 / 2 ^ 53)) = 4728779608739021 / 2 ^ 53"
  using round64_eval [of "-1" "0 + (4728779608739021 / 2 ^ 53)" 4728779608739021] by simp

lemma f64_7_sum2: "round64 ((4728779608739021 / 2 ^ 53) + (6305039478318695 / 2 ^ 54)) = 7 / 2 ^ 3"
  using round64_eval [of "-1" "(4728779608739021 / 2 ^ 53) + (6305039478318695 / 2 ^ 54)" 7881299347898368] by simp

lemma f64_7_sum3: "round64 ((7 / 2 ^ 3) + (1261007895663739 / 2 ^ 53)) = 2285576810890527 / 2 ^ 51"
  using round64_eval [of "0" "(7 / 2 ^ 3) + (1261007895663739 / 2 ^ 53)" 4571153621781054] by simp

lemma f64_7_exact_sum: "round64 ((4728779608739021 / 2 ^ 53) + (6305039478318695 / 2 ^ 54) + (1261007895663739 / 2 ^ 53)) = 2285576810890527 / 2 ^ 51"
  using round64_eval [of "0" "(4728779608739021 / 2 ^ 53) + (6305039478318695 / 2 ^ 54) + (1261007895663739 / 2 ^ 53)" 4571153621781054] by simp

lemma f64_7_times_0_145: "round64 (7 * (5224175567749775 / 2 ^ 55)) = 4571153621781053 / 2 ^ 52"
  using round64_eval [of "0" "7 * (5224175567749775 / 2 ^ 55)" 4571153621781053] by simp

lemma f64_d_cont: "round64 (27141156 * (5404319552844595 / 2 ^ 56)) = 8742778304672563 / 2 ^ 32"
  using round64_eval [of "20" "27141156 * (5404319552844595 / 2 ^ 56)" 8742778304672563] by simp

lemma f64_d_prelim: "round64 (27141156 * (3602879701896397 / 2 ^ 56)) = 5828518869781709 / 2 ^ 32"
  using round64_eval [of "20" "27141156 * (3602879701896397 / 2 ^ 56)" 5828518869781709] by simp

lemma f64_d_design: "round64 (27141156 * (5764607523034235 / 2 ^ 58)) = 4662815095825367 / 2 ^ 33"
  using round64_eval [of "19" "27141156 * (5764607523034235 / 2 ^ 58)" 4662815095825367] by simp

lemma f64_d_sum1: "round64 (0 + (8742778304672563 / 2 ^ 32)) = 8742778304672563 / 2 ^ 32"
  using round64_eval [of "20" "0 + (8742778304672563 / 2 ^ 32)" 8742778304672563] by simp

lemma f64_d_sum2: "round64 ((8742778304672563 / 2 ^ 32) + (5828518869781709 / 2 ^ 32)) = 6785289 / 2 ^ 1"
  using round64_eval [of "21" "(8742778304672563 / 2 ^ 32) + (5828518869781709 / 2 ^ 32)" 7285648587227136] by simp

lemma f64_d_sum3: "round64 ((6785289 / 2 ^ 1) + (4662815095825367 / 2 ^ 33)) = 4225676180591739 / 2 ^ 30"
  using round64_eval [of "21" "(6785289 / 2 ^ 1) + (4662815095825367 / 2 ^ 33)" 8451352361183478] by simp

lemma f64_d_exact_sum: "round64 ((8742778304672563 / 2 ^ 32) + (5828518869781709 / 2 ^ 32) + (4662815095825367 / 2 ^ 33)) = 4225676180591739 / 2 ^ 30"
  using round64_eval [of "21" "(8742778304672563 / 2 ^ 32) + (5828518869781709 / 2 ^ 32) + (4662815095825367 / 2 ^ 33)" 8451352361183478] by simp

lemma f64_d_times_0_145: "round64 (27141156 * (5224175567749775 / 2 ^ 55)) = 8451352361183477 / 2 ^ 31"
  using round64_eval [of "21" "27141156 * (5224175567749775 / 2 ^ 55)" 8451352361183477] by simp

section \<open>Site difficulty in binary64\<close>

lemma f64_rocky_poor: "round64 ((3 / 2 ^ 1) * (3152519739159347 / 2 ^ 51)) = 1182194902184755 / 2 ^ 49"
  using round64_eval [of "1" "(3 / 2 ^ 1) * (3152519739159347 / 2 ^ 51)" 4728779608739020] by simp

lemma site_rocky_poor:
  "calculate_site_difficulty_f64 ''Rocky'' ''Poor'' = Inr (1182194902184755 / 2 ^ 49)"
proof -
  have "calculate_site_difficulty_f64 ''Rocky'' ''Poor'' = Inr (round64 (round64 1.5 * round64 1.4))"
    by (simp add: calculate_site_difficulty_f64_def as_floats_def soil_map_def access_map_def
          fmul_def run)
  then show ?thesis
    by (simp only: f64_1_4 f64_1_5 f64_rocky_poor)
qed

lemma site_rocky_poor_ok:
  "calculate_site_difficulty_f64 ''Rocky'' ''Poor'' = Inr (round64 (round64 1.5 * round64 1.4))
   \<and> \<bar>round64 (round64 1.5 * round64 1.4) - 1.5 * 1.4\<bar> \<le> 1.5 * 1.4 / 2 ^ 52"
proof
  show "calculate_site_difficulty_f64 ''Rocky'' ''Poor'' = Inr (round64 (round64 1.5 * round64 1.4))"
    by (simp add: calculate_site_difficulty_f64_def as_floats_def soil_map_def access_map_def
          fmul_def run)
  have v: "round64 (round64 1.5 * round64 1.4) = 1182194902184755 / 2 ^ 49"
    by (simp only: f64_1_4 f64_1_5 f64_rocky_poor)
  show "\<bar>round64 (round64 1.5 * round64 1.4) - 1.5 * 1.4\<bar> \<le> 1.5 * 1.4 / 2 ^ 52"
    unfolding v by simp
qed

lemma f64_rocky_average: "round64 ((3 / 2 ^ 1) * (2476979795053773 / 2 ^ 51)) = 7430939385161319 / 2 ^ 52"
  using round64_eval [of "0" "(3 / 2 ^ 1) * (2476979795053773 / 2 ^ 51)" 7430939385161319] by simp

lemma site_rocky_average:
  "calculate_site_difficulty_f64 ''Rocky'' ''Average'' = Inr (7430939385161319 / 2 ^ 52)"
proof -
  have "calculate_site_difficulty_f64 ''Rocky'' ''Average'' = Inr (round64 (round64 1.5 * round64 1.1))"
    by (simp add: calculate_site_difficulty_f64_def as_floats_def soil_map_def access_map_def
          fmul_def run)
  then show ?thesis
    by (simp only: f64_1_1 f64_1_5 f64_rocky_average)
qed

lemma site_rocky_average_ok:
  "calculate_site_difficulty_f64 ''Rocky'' ''Average'' = Inr (round64 (round64 1.5 * round64 1.1))
   \<and> \<bar>round64 (round64 1.5 * round64 1.1) - 1.5 * 1.1\<bar> \<le> 1.5 * 1.1 / 2 ^ 52"
proof
  show "calculate_site_difficulty_f64 ''Rocky'' ''Average'' = Inr (round64 (round64 1.5 * round64 1.1))"
    by (simp add: calculate_site_difficulty_f64_def as_floats_def soil_map_def access_map_def
          fmul_def run)
  have v: "round64 (round64 1.5 * round64 1.1) = 7430939385161319 / 2 ^ 52"
    by (simp only: f64_1_1 f64_1_5 f64_rocky_average)
  show "\<bar>round64 (round64 1.5 * round64 1.1) - 1.5 * 1.1\<bar> \<le> 1.5 * 1.1 / 2 ^ 52"
    unfolding v by simp
qed

lemma f64_rocky_good: "round64 ((3 / 2 ^ 1) * (1)) = 3 / 2 ^ 1"
  using round64_eval [of "0" "(3 / 2 ^ 1) * (1)" 6755399441055744] by simp

lemma site_rocky_good:
  "calculate_site_difficulty_f64 ''Rocky'' ''Good'' = Inr (3 / 2 ^ 1)"
proof -
  have "calculate_site_difficulty_f64 ''Rocky'' ''Good'' = Inr (round64 (round64 1.5 * round64 1.0))"
    by (simp add: calculate_site_difficulty_f64_def as_floats_def soil_map_def access_map_def
          fmul_def run)
  then show ?thesis
    by (simp only: f64_1_0 f64_1_5 f64_rocky_good)
qed

lemma site_rocky_good_ok:
  "calculate_site_difficulty_f64 ''Rocky'' ''Good'' = Inr (round64 (round64 1.5 * round64 1.0))
   \<and> \<bar>round64 (round64 1.5 * round64 1.0) - 1.5 * 1.0\<bar> \<le> 1.5 * 1.0 / 2 ^ 52"
proof
  show "calculate_site_difficulty_f64 ''Rocky'' ''Good'' = Inr (round64 (round64 1.5 * round64 1.0))"
    by (simp add: calculate_site_difficulty_f64_def as_floats_def soil_map_def access_map_def
          fmul_def run)
  have v: "round64 (round64 1.5 * round64 1.0) = 3 / 2 ^ 1"
    by (simp only: f64_1_0 f64_1_5 f64_rocky_good)
  show "\<bar>round64 (round64 1.5 * round64 1.0) - 1.5 * 1.0\<bar> \<le> 1.5 * 1.0 / 2 ^ 52"
    unfolding v by simp
qed

lemma f64_sandy_poor: "round64 ((5404319552844595 / 2 ^ 52) * (3152519739159347 / 2 ^ 51)) = 7566047373982433 / 2 ^ 52"
  using round64_eval [of "0" "(5404319552844595 / 2 ^ 52) * (3152519739159347 / 2 ^ 51)" 7566047373982433] by simp

lemma site_sandy_poor:
  "calculate_site_difficulty_f64 ''Sandy'' ''Poor'' = Inr (7566047373982433 / 2 ^ 52)"
proof -
  have "calculate_site_difficulty_f64 ''Sandy'' ''Poor'' = Inr (round64 (round64 1.2 * round64 1.4))"
    by (simp add: calculate_site_difficulty_f64_def as_floats_def soil_map_def access_map_def
          fmul_def run)
  then show ?thesis
    by (simp only: f64_1_2 f64_1_4 f64_sandy_poor)
qed

lemma site_sandy_poor_ok:
  "calculate_site_difficulty_f64 ''Sandy'' ''Poor'' = Inr (round64 (round64 1.2 * round64 1.4))
   \<and> \<bar>round64 (round64 1.2 * round64 1.4) - 1.2 * 1.4\<bar> \<le> 1.2 * 1.4 / 2 ^ 52"
proof
  show "calculate_site_difficulty_f64 ''Sandy'' ''Poor'' = Inr (round64 (round64 1.2 * round64 1.4))"
    by (simp add: calculate_site_difficulty_f64_def as_floats_def soil_map_def access_map_def
          fmul_def run)
  have v: "round64 (round64 1.2 * round64 1.4) = 7566047373982433 / 2 ^ 52"
    by (simp only: f64_1_2 f64_1_4 f64_sandy_poor)
  show "\<bar>round64 (round64 1.2 * round64 1.4) - 1.2 * 1.4\<bar> \<le> 1.2 * 1.4 / 2 ^ 52"
    unfolding v by simp
qed

lemma f64_sandy_average: "round64 ((5404319552844595 / 2 ^ 52) * (2476979795053773 / 2 ^ 51)) = 5944751508129055 / 2 ^ 52"
  using round64_eval [of "0" "(5404319552844595 / 2 ^ 52) * (2476979795053773 / 2 ^ 51)" 5944751508129055] by simp

lemma site_sandy_average:
  "calculate_site_difficulty_f64 ''Sandy'' ''Average'' = Inr (5944751508129055 / 2 ^ 52)"
proof -
  have "calculate_site_difficulty_f64 ''Sandy'' ''Average'' = Inr (round64 (round64 1.2 * round64 1.1))"
    by (simp add: calculate_site_difficulty_f64_def as_floats_def soil_map_def access_map_def
          fmul_def run)
  then show ?thesis
    by (simp only: f64_1_1 f64_1_2 f64_sandy_average)
qed

lemma site_sandy_average_ok:
  "calculate_site_difficulty_f64 ''Sandy'' ''Average'' = Inr (round64 (round64 1.2 * round64 1.1))
   \<and> \<bar>round64 (round64 1.2 * round64 1.1) - 1.2 * 1.1\<bar> \<le> 1.2 * 1.1 / 2 ^ 52"
proof
  show "calculate_site_difficulty_f64 ''Sandy'' ''Average'' = Inr (round64 (round64 1.2 * round64 1.1))"
    by (simp add: calculate_site_difficulty_f64_def as_floats_def soil_map_def access_map_def
          fmul_def run)
  have v: "round64 (round64 1.2 * round64 1.1) = 5944751508129055 / 2 ^ 52"
    by (simp only: f64_1_1 f64_1_2 f64_sandy_average)
  show "\<bar>round64 (round64 1.2 * round64 1.1) - 1.2 * 1.1\<bar> \<le> 1.2 * 1.1 / 2 ^ 52"
    unfolding v by simp
qed

lemma f64_sandy_good: "round64 ((5404319552844595 / 2 ^ 52) * (1)) = 5404319552844595 / 2 ^ 52"
  using round64_eval [of "0" "(5404319552844595 / 2 ^ 52) * (1)" 5404319552844595] by simp

lemma site_sandy_good:
  "calculate_site_difficulty_f64 ''Sandy'' ''Good'' = Inr (5404319552844595 / 2 ^ 52)"
proof -
  have "calculate_site_difficulty_f64 ''Sandy'' ''Good'' = Inr (round64 (round64 1.2 * round64 1.0))"
    by (simp add: calculate_site_difficulty_f64_def as_floats_def soil_map_def access_map_def
          fmul_def run)
  then show ?thesis
    by (simp only: f64_1_0 f64_1_2 f64_sandy_good)
qed

lemma site_sandy_good_ok:
  "calculate_site_difficulty_f64 ''Sandy'' ''Good'' = Inr (round64 (round64 1.2 * round64 1.0))
   \<and> \<bar>round64 (round64 1.2 * round64 1.0) - 1.2 * 1.0\<bar> \<le> 1.2 * 1.0 / 2 ^ 52"
proof
  show "calculate_site_difficulty_f64 ''Sandy'' ''Good'' = Inr (round64 (round64 1.2 * round64 1.0))"
    by (simp add: calculate_site_difficulty_f64_def as_floats_def soil_map_def access_map_def
          fmul_def run)
  have v: "round64 (round64 1.2 * round64 1.0) = 5404319552844595 / 2 ^ 52"
    by (simp only: f64_1_0 f64_1_2 f64_sandy_good)
  show "\<bar>round64 (round64 1.2 * round64 1.0) - 1.2 * 1.0\<bar> \<le> 1.2 * 1.0 / 2 ^ 52"
    unfolding v by simp
qed

lemma f64_clay_poor: "round64 ((1) * (3152519739159347 / 2 ^ 51)) = 3152519739159347 / 2 ^ 51"
  using round64_eval [of "0" "(1) * (3152519739159347 / 2 ^ 51)" 6305039478318694] by simp

lemma site_clay_poor:
  "calculate_site_difficulty_f64 ''Clay'' ''Poor'' = Inr (3152519739159347 / 2 ^ 51)"
proof -
  have "calculate_site_difficulty_f64 ''Clay'' ''Poor'' = Inr (round64 (round64 1.0 * round64 1.4))"
    by (simp add: calculate_site_difficulty_f64_def as_floats_def soil_map_def access_map_def
          fmul_def run)
  then show ?thesis
    by (simp only: f64_1_0 f64_1_4 f64_clay_poor)
qed

lemma site_clay_poor_ok:
  "calculate_site_difficulty_f64 ''Clay'' ''Poor'' = Inr (round64 (round64 1.0 * round64 1.4))
   \<and> \<bar>round64 (round64 1.0 * round64 1.4) - 1.0 * 1.4\<bar> \<le> 1.0 * 1.4 / 2 ^ 52"
proof
  show "calculate_site_difficulty_f64 ''Clay'' ''Poor'' = Inr (round64 (round64 1.0 * round64 1.4))"
    by (simp add: calculate_site_difficulty_f64_def as_floats_def soil_map_def access_map_def
          fmul_def run)
  have v: "round64 (round64 1.0 * round64 1.4) = 3152519739159347 / 2 ^ 51"
    by (simp only: f64_1_0 f64_1_4 f64_clay_poor)
  show "\<bar>round64 (round64 1.0 * round64 1.4) - 1.0 * 1.4\<bar> \<le> 1.0 * 1.4 / 2 ^ 52"
    unfolding v by simp
qed

lemma f64_clay_average: "round64 ((1) * (2476979795053773 / 2 ^ 51)) = 2476979795053773 / 2 ^ 51"
  using round64_eval [of "0" "(1) * (2476979795053773 / 2 ^ 51)" 4953959590107546] by simp

lemma site_clay_average:
  "calculate_site_difficulty_f64 ''Clay'' ''Average'' = Inr (2476979795053773 / 2 ^ 51)"
proof -
  have "calculate_site_difficulty_f64 ''Clay'' ''Average'' = Inr (round64 (round64 1.0 * round64 1.1))"
    by (simp add: calculate_site_difficulty_f64_def as_floats_def soil_map_def access_map_def
          fmul_def run)
  then show ?thesis
    by (simp only: f64_1_0 f64_1_1 f64_clay_average)
qed

lemma site_clay_average_ok:
  "calculate_site_difficulty_f64 ''Clay'' ''Average'' = Inr (round64 (round64 1.0 * round64 1.1))
   \<and> \<bar>round64 (round64 1.0 * round64 1.1) - 1.0 * 1.1\<bar> \<le> 1.0 * 1.1 / 2 ^ 52"
proof
  show "calculate_site_difficulty_f64 ''Clay'' ''Average'' = Inr (round64 (round64 1.0 * round64 1.1))"
    by (simp add: calculate_site_difficulty_f64_def as_floats_def soil_map_def access_map_def
          fmul_def run)
  have v: "round64 (round64 1.0 * round64 1.1) = 2476979795053773 / 2 ^ 51"
    by (simp only: f64_1_0 f64_1_1 f64_clay_average)
  show "\<bar>round64 (round64 1.0 * round64 1.1) - 1.0 * 1.1\<bar> \<le> 1.0 * 1.1 / 2 ^ 52"
    unfolding v by simp
qed

lemma f64_clay_good: "round64 ((1) * (1)) = 1"
  using round64_eval [of "0" "(1) * (1)" 4503599627370496] by simp

lemma site_clay_good:
  "calculate_site_difficulty_f64 ''Clay'' ''Good'' = Inr (1)"
proof -
  have "calculate_site_difficulty_f64 ''Clay'' ''Good'' = Inr (round64 (round64 1.0 * round64 1.0))"
    by (simp add: calculate_site_difficulty_f64_def as_floats_def soil_map_def access_map_def
          fmul_def run)
  then show ?thesis
    by (simp only: f64_1_0 f64_clay_good)
qed

lemma site_clay_good_ok:
  "calculate_site_difficulty_f64 ''Clay'' ''Good'' = Inr (round64 (round64 1.0 * round64 1.0))
   \<and> \<bar>round64 (round64 1.0 * round64 1.0) - 1.0 * 1.0\<bar> \<le> 1.0 * 1.0 / 2 ^ 52"
proof
  show "calculate_site_difficulty_f64 ''Clay'' ''Good'' = Inr (round64 (round64 1.0 * round64 1.0))"
    by (simp add: calculate_site_difficulty_f64_def as_floats_def soil_map_def access_map_def
          fmul_def run)
  have v: "round64 (round64 1.0 * round64 1.0) = 1"
    by (simp only: f64_1_0 f64_clay_good)
  show "\<bar>round64 (round64 1.0 * round64 1.0) - 1.0 * 1.0\<bar> \<le> 1.0 * 1.0 / 2 ^ 52"
    unfolding v by simp
qed

text \<open>
  Claim C6, as the code has it. For every soil of the table Rocky 1.5, Sandy 1.2, Clay
  1.0 and every access of the table Poor 1.4, Average 1.1, Good 1.0,
  \<open>calculate_site_difficulty\<close> returns the binary64 product of the two entries, each
  entry being the double nearest its decimal; that product lies within one part in
  \<open>2 ^ 52\<close> of the exact product of the decimals, and the function is a pure function of
  its two arguments. Rocky soil with Poor access gives \<^verbatim>\<open>2.0999999999999996\<close>, the double
  just below the double \<^verbatim>\<open>2.1\<close>: the exact product of the doubles 1.5 and 1.4 lies halfway
  between the two and the tie goes to the even one.
\<close>

theorem calculate_site_difficulty_binary64:
  "(map_of [(''Rocky'', 1.5), (''Sandy'', 1.2), (''Clay'', 1.0)] soil = Some (sd::real) \<and>
    map_of [(''Poor'', 1.4), (''Average'', 1.1), (''Good'', 1.0)] access = Some (ad::real) \<longrightarrow>
      calculate_site_difficulty_f64 soil access = Inr (round64 (round64 sd * round64 ad))
    \<and> \<bar>round64 (round64 sd * round64 ad) - sd * ad\<bar> \<le> sd * ad / 2 ^ 52)
   \<and> calculate_site_difficulty_f64 ''Rocky'' ''Poor'' = Inr (4728779608739020 / 2 ^ 51)
   \<and> round64 2.1 = 4728779608739021 / 2 ^ 51
   \<and> \<bar>4728779608739020 / 2 ^ 51 - 2.1\<bar> \<le> (1::real) / 2 ^ 51"
proof (intro conjI impI)
  assume h: "map_of [(''Rocky'', 1.5), (''Sandy'', 1.2), (''Clay'', 1.0)] soil = Some sd \<and>
    map_of [(''Poor'', 1.4), (''Average'', 1.1), (''Good'', 1.0)] access = Some ad"
  then have s: "(soil = ''Rocky'' \<and> sd = 1.5) \<or> (soil = ''Sandy'' \<and> sd = 1.2)
                  \<or> (soil = ''Clay'' \<and> sd = 1.0)"
    by (auto split: if_splits)
  from h have a: "(access = ''Poor'' \<and> ad = 1.4) \<or> (access = ''Average'' \<and> ad = 1.1)
                  \<or> (access = ''Good'' \<and> ad = 1.0)"
    by (auto split: if_splits)
  have "calculate_site_difficulty_f64 soil access = Inr (round64 (round64 sd * round64 ad))
        \<and> \<bar>round64 (round64 sd * round64 ad) - sd * ad\<bar> \<le> sd * ad / 2 ^ 52"
  proof -
    have c_rocky_poor: ?thesis
      if "soil = ''Rocky''" and "sd = 1.5" and "access = ''Poor''" and "ad = 1.4"
      unfolding that by (rule site_rocky_poor_ok)
    have c_rocky_average: ?thesis
      if "soil = ''Rocky''" and "sd = 1.5" and "access = ''Average''" and "ad = 1.1"
      unfolding that by (rule site_rocky_average_ok)
    have c_rocky_good: ?thesis
      if "soil = ''Rocky''" and "sd = 1.5" and "access = ''Good''" and "ad = 1.0"
      unfolding that by (rule site_rocky_good_ok)
    have c_sandy_poor: ?thesis
      if "soil = ''Sandy''" and "sd = 1.2" and "access = ''Poor''" and "ad = 1.4"
      unfolding that by (rule site_sandy_poor_ok)
    have c_sandy_average: ?thesis
      if "soil = ''Sandy''" and "sd = 1.2" and "access = ''Average''" and "ad = 1.1"
      unfolding that by (rule site_sandy_average_ok)
    have c_sandy_good: ?thesis
      if "soil = ''Sandy''" and "sd = 1.2" and "access = ''Good''" and "ad = 1.0"
      unfolding that by (rule site_sandy_good_ok)
    have c_clay_poor: ?thesis
      if "soil = ''Clay''" and "sd = 1.0" and "access = ''Poor''" and "ad = 1.4"
      unfolding that by (rule site_clay_poor_ok)
    have c_clay_average: ?thesis
      if "soil = ''Clay''" and "sd = 1.0" and "access = ''Average''" and "ad = 1.1"
      unfolding that by (rule site_clay_average_ok)
    have c_clay_good: ?thesis
      if "soil = ''Clay''" and "sd = 1.0" and "access = ''Good''" and "ad = 1.0"
      unfolding that by (rule site_clay_good_ok)
    from s show ?thesis
    proof (elim disjE conjE)
      assume soil: "soil = ''Rocky''" "sd = 1.5"
      from a show ?thesis
      proof (elim disjE conjE)
        assume "access = ''Poor''" "ad = 1.4"
        with soil show ?thesis
          by (rule c_rocky_poor)
      next
        assume "access = ''Average''" "ad = 1.1"
        with soil show ?thesis
          by (rule c_rocky_average)
      next
        assume "access = ''Good''" "ad = 1.0"
        with soil show ?thesis
          by (rule c_rocky_good)
      qed
    next
      assume soil: "soil = ''Sandy''" "sd = 1.2"
      from a show ?thesis
      proof (elim disjE conjE)
        assume "access = ''Poor''" "ad = 1.4"
        with soil show ?thesis
          by (rule c_sandy_poor)
      next
        assume "access = ''Average''" "ad = 1.1"
        with soil show ?thesis
          by (rule c_sandy_average)
      next
        assume "access = ''Good''" "ad = 1.0"
        with soil show ?thesis
          by (rule c_sandy_good)
      qed
    next
      assume soil: "soil = ''Clay''" "sd = 1.0"
      from a show ?thesis
      proof (elim disjE conjE)
        assume "access = ''Poor''" "ad = 1.4"
        with soil show ?thesis
          by (rule c_clay_poor)
      next
        assume "access = ''Average''" "ad = 1.1"
        with soil show ?thesis
          by (rule c_clay_average)
      next
        assume "access = ''Good''" "ad = 1.0"
        with soil show ?thesis
          by (rule c_clay_good)
      qed
    qed
  qed
  then show "calculate_site_difficulty_f64 soil access = Inr (round64 (round64 sd * round64 ad))"
    and "\<bar>round64 (round64 sd * round64 ad) - sd * ad\<bar> \<le> sd * ad / 2 ^ 52"
    by simp_all
next
  show "calculate_site_difficulty_f64 ''Rocky'' ''Poor'' = Inr (4728779608739020 / 2 ^ 51)"
    using site_rocky_poor by simp
  show "round64 2.1 = 4728779608739021 / 2 ^ 51"
    using f64_2_1 by simp
  show "\<bar>4728779608739020 / 2 ^ 51 - 2.1\<bar> \<le> (1::real) / 2 ^ 51"
    by simp
qed

theorem calculate_site_difficulty_binary64_witness:
  "calculate_site_difficulty_f64 ''Rocky'' ''Average''
     = Inr (round64 (round64 1.5 * round64 1.1))
   \<and> \<bar>round64 (round64 1.5 * round64 1.1) - 1.5 * 1.1\<bar> \<le> 1.5 * 1.1 / 2 ^ 52"
proof -
  have "map_of [(''Rocky'', 1.5), (''Sandy'', 1.2), (''Clay'', 1.0)] ''Rocky'' = Some (1.5::real) \<and>
        map_of [(''Poor'', 1.4), (''Average'', 1.1), (''Good'', 1.0)] ''Average'' = Some (1.1::real)"
    by simp
  with calculate_site_difficulty_binary64 [of "''Rocky''" "1.5" "''Average''" "1.1"]
  show ?thesis
    by blast
qed

text \<open>
  Against claim C6 as it is stated: what the code returns for Rocky soil and Poor access
  is neither the double \<^verbatim>\<open>2.1\<close> nor the real number 2.1.
\<close>

theorem site_difficulty_rocky_poor_is_not_2_1:
  "calculate_site_difficulty_f64 ''Rocky'' ''Poor'' \<noteq> Inr (round64 2.1)
   \<and> calculate_site_difficulty_f64 ''Rocky'' ''Poor'' \<noteq> Inr 2.1"
  using site_rocky_poor f64_2_1 by simp

section \<open>Risk components in binary64\<close>

lemma risk_components_f64_eq:
  "risk_components_f64 b =
     Inr [(''Contingencies'', round64 (b * round64 0.075)),
          (''Preliminaries'', round64 (b * round64 0.05)),
          (''Design Risk'', round64 (b * round64 0.02))]"
  by (simp add: risk_components_f64_def as_floats_def RISK_FACTORS_def fmul_def run)

lemma risks_f64_eq:
  "risks_f64 b =
     Inr (round64 (round64 (round64 (0 + round64 (b * round64 0.075))
                            + round64 (b * round64 0.05))
                   + round64 (b * round64 0.02)))"
  by (simp add: risks_f64_def risk_components_f64_eq and_then_Inr py_sum_f64_def fadd_def)

lemma product_in_range:
  fixes b c :: real
  assumes "2 powi (- 1000) \<le> b" and "1 / 2 ^ 10 \<le> c"
  shows "2 powi (- 1022) \<le> b * c"
proof -
  have "(2::real) powi (- 1022) \<le> 2 powi (- 1000) * (1 / 2 ^ 10)"
    by (simp add: power_int_minus field_simps)
  also have "\<dots> \<le> b * c"
    using assms by (intro mult_mono) simp_all
  finally show ?thesis .
qed

lemma risk_sum_tolerance:
  fixes b :: real
  assumes b: "2 powi (- 1000) \<le> b"
  shows "\<bar>round64 (b * round64 0.075) + round64 (b * round64 0.05)
           + round64 (b * round64 0.02) - b * 0.145\<bar> \<le> b / 2 ^ 53"
    and "\<bar>round64 (round64 (round64 (0 + round64 (b * round64 0.075))
                            + round64 (b * round64 0.05))
                   + round64 (b * round64 0.02)) - b * 0.145\<bar> \<le> b / 2 ^ 53"
proof -
  define c1 :: real where "c1 = 5404319552844595 / 2 ^ 56"
  define c2 :: real where "c2 = 3602879701896397 / 2 ^ 56"
  define c3 :: real where "c3 = 5764607523034235 / 2 ^ 58"
  have lit: "round64 0.075 = c1" "round64 0.05 = c2" "round64 0.02 = c3"
    by (simp_all only: f64_0_075 f64_0_05 f64_0_02 c1_def c2_def c3_def)
  define p1 where "p1 = round64 (b * c1)"
  define p2 where "p2 = round64 (b * c2)"
  define p3 where "p3 = round64 (b * c3)"
  define s1 where "s1 = round64 p1"
  define s2 where "s2 = round64 (s1 + p2)"
  define s3 where "s3 = round64 (s2 + p3)"
  have bpos: "0 < b"
    using b by (metis less_le_trans zero_less_numeral zero_less_power_int)
  have r1: "2 powi (- 1022) \<le> b * c1" and r2: "2 powi (- 1022) \<le> b * c2"
    and r3: "2 powi (- 1022) \<le> b * c3"
    by (rule product_in_range [OF b], simp add: c1_def c2_def c3_def)+
  note q1 = round64_bounds [OF r1, folded p1_def]
  note q2 = round64_bounds [OF r2, folded p2_def]
  note q3 = round64_bounds [OF r3, folded p3_def]
  have small: "(2::real) powi (- 1022) \<le> b / 2 ^ 12"
  proof -
    have "(2::real) powi (- 1022) \<le> 2 powi (- 1000) / 2 ^ 12"
      by (simp add: power_int_minus field_simps)
    also have "\<dots> \<le> b / 2 ^ 12"
      using b by (intro divide_right_mono) simp_all
    finally show ?thesis .
  qed
  have l1: "b / 2 ^ 11 \<le> p1" and l2: "b / 2 ^ 11 \<le> p2" and l3: "b / 2 ^ 11 \<le> p3"
    using q1(1) q2(1) q3(1) bpos by (simp_all add: c1_def c2_def c3_def field_simps)
  have half: "b / 2 ^ 12 \<le> b / 2 ^ 11" and quarter: "0 < b / 2 ^ 12"
    using bpos by (simp_all add: field_simps)
  have t1: "2 powi (- 1022) \<le> p1"
    using small l1 half by linarith
  note u1 = round64_bounds [OF t1, folded s1_def]
  have "b / 2 ^ 12 \<le> s1"
    using u1(1) l1 bpos by (simp add: field_simps)
  then have t2: "2 powi (- 1022) \<le> s1 + p2"
    using small l2 half quarter by linarith
  note u2 = round64_bounds [OF t2, folded s2_def]
  have "b / 2 ^ 12 \<le> s2"
    using u2(1) \<open>b / 2 ^ 12 \<le> s1\<close> l2 bpos by (simp add: field_simps)
  then have t3: "2 powi (- 1022) \<le> s2 + p3"
    using small l3 half quarter by linarith
  note u3 = round64_bounds [OF t3, folded s3_def]
  have "p1 + p2 + p3 - b * 0.145 \<le> b / 2 ^ 53" and "b * 0.145 - (p1 + p2 + p3) \<le> b / 2 ^ 53"
    using q1 q2 q3 bpos unfolding c1_def c2_def c3_def by (simp_all add: field_simps)
  then have "\<bar>p1 + p2 + p3 - b * 0.145\<bar> \<le> b / 2 ^ 53"
    by (simp only: abs_le_iff minus_diff_eq)
  then show "\<bar>round64 (b * round64 0.075) + round64 (b * round64 0.05)
           + round64 (b * round64 0.02) - b * 0.145\<bar> \<le> b / 2 ^ 53"
    by (simp only: lit p1_def p2_def p3_def)
  have "s3 - b * 0.145 \<le> b / 2 ^ 53" and "b * 0.145 - s3 \<le> b / 2 ^ 53"
    using q1 q2 q3 u1 u2 u3 bpos unfolding c1_def c2_def c3_def
    by (simp_all add: field_simps)
  then have "\<bar>s3 - b * 0.145\<bar> \<le> b / 2 ^ 53"
    by (simp only: abs_le_iff minus_diff_eq)
  then show "\<bar>round64 (round64 (round64 (0 + round64 (b * round64 0.075))
                            + round64 (b * round64 0.05))
                   + round64 (b * round64 0.02)) - b * 0.145\<bar> \<le> b / 2 ^ 53"
    by (simp only: lit p1_def p2_def p3_def s1_def s2_def s3_def add_0)
qed

lemma risk_component_tolerance:
  fixes b :: real
  assumes b: "2 powi (- 1000) \<le> b"
  shows "\<bar>round64 (b * round64 0.075) - b * 0.075\<bar> \<le> b * 0.075 / 2 ^ 52"
    and "\<bar>round64 (b * round64 0.05) - b * 0.05\<bar> \<le> b * 0.05 / 2 ^ 52"
    and "\<bar>round64 (b * round64 0.02) - b * 0.02\<bar> \<le> b * 0.02 / 2 ^ 52"
proof -
  define c1 :: real where "c1 = 5404319552844595 / 2 ^ 56"
  define c2 :: real where "c2 = 3602879701896397 / 2 ^ 56"
  define c3 :: real where "c3 = 5764607523034235 / 2 ^ 58"
  have lit: "round64 0.075 = c1" "round64 0.05 = c2" "round64 0.02 = c3"
    by (simp_all only: f64_0_075 f64_0_05 f64_0_02 c1_def c2_def c3_def)
  define p1 where "p1 = round64 (b * c1)"
  define p2 where "p2 = round64 (b * c2)"
  define p3 where "p3 = round64 (b * c3)"
  have bpos: "0 < b"
    using b by (metis less_le_trans zero_less_numeral zero_less_power_int)
  have r1: "2 powi (- 1022) \<le> b * c1" and r2: "2 powi (- 1022) \<le> b * c2"
    and r3: "2 powi (- 1022) \<le> b * c3"
    by (rule product_in_range [OF b], simp add: c1_def c2_def c3_def)+
  note q1 = round64_bounds [OF r1, folded p1_def]
  note q2 = round64_bounds [OF r2, folded p2_def]
  note q3 = round64_bounds [OF r3, folded p3_def]
  have "p1 - b * 0.075 \<le> b * 0.075 / 2 ^ 52" and "b * 0.075 - p1 \<le> b * 0.075 / 2 ^ 52"
    using q1 bpos unfolding c1_def by (simp_all add: field_simps)
  then have "\<bar>p1 - b * 0.075\<bar> \<le> b * 0.075 / 2 ^ 52"
    by (simp only: abs_le_iff minus_diff_eq)
  then show "\<bar>round64 (b * round64 0.075) - b * 0.075\<bar> \<le> b * 0.075 / 2 ^ 52"
    by (simp only: lit p1_def)
  have "p2 - b * 0.05 \<le> b * 0.05 / 2 ^ 52" and "b * 0.05 - p2 \<le> b * 0.05 / 2 ^ 52"
    using q2 bpos unfolding c2_def by (simp_all add: field_simps)
  then have "\<bar>p2 - b * 0.05\<bar> \<le> b * 0.05 / 2 ^ 52"
    by (simp only: abs_le_iff minus_diff_eq)
  then show "\<bar>round64 (b * round64 0.05) - b * 0.05\<bar> \<le> b * 0.05 / 2 ^ 52"
    by (simp only: lit p2_def)
  have "p3 - b * 0.02 \<le> b * 0.02 / 2 ^ 52" and "b * 0.02 - p3 \<le> b * 0.02 / 2 ^ 52"
    using q3 bpos unfolding c3_def by (simp_all add: field_simps)
  then have "\<bar>p3 - b * 0.02\<bar> \<le> b * 0.02 / 2 ^ 52"
    by (simp only: abs_le_iff minus_diff_eq)
  then show "\<bar>round64 (b * round64 0.02) - b * 0.02\<bar> \<le> b * 0.02 / 2 ^ 52"
    by (simp only: lit p3_def)
qed

lemma risks_f64_7: "risks_f64 7 = Inr (2285576810890527 / 2 ^ 51)"
  using risks_f64_eq [of 7]
  by (simp only: f64_0_075 f64_0_05 f64_0_02 f64_7_cont f64_7_prelim f64_7_design
        f64_7_sum1 f64_7_sum2 f64_7_sum3)

lemma risks_f64_default: "risks_f64 27141156 = Inr (4225676180591739 / 2 ^ 30)"
  using risks_f64_eq [of 27141156]
  by (simp only: f64_0_075 f64_0_05 f64_0_02 f64_d_cont f64_d_prelim f64_d_design
        f64_d_sum1 f64_d_sum2 f64_d_sum3)

lemma times_0_145_at_7: "round64 (7 * round64 0.145) = 4571153621781053 / 2 ^ 52"
  by (simp only: f64_0_145 f64_7_times_0_145)

lemma times_0_145_at_default: "round64 (27141156 * round64 0.145) = 8451352361183477 / 2 ^ 31"
  by (simp only: f64_0_145 f64_d_times_0_145)

lemma exact_sum_at_7:
  "round64 (round64 (7 * round64 0.075) + round64 (7 * round64 0.05)
            + round64 (7 * round64 0.02)) = 2285576810890527 / 2 ^ 51"
  by (simp only: f64_0_075 f64_0_05 f64_0_02 f64_7_cont f64_7_prelim f64_7_design
        f64_7_exact_sum)

lemma exact_sum_at_default:
  "round64 (round64 (27141156 * round64 0.075) + round64 (27141156 * round64 0.05)
            + round64 (27141156 * round64 0.02)) = 4225676180591739 / 2 ^ 30"
  by (simp only: f64_0_075 f64_0_05 f64_0_02 f64_d_cont f64_d_prelim f64_d_design
        f64_d_exact_sum)

text \<open>
  Claim C5, as the code has it. For every base cost the three risk components are the
  binary64 products of the base cost itself with 0.075 (contingencies), 0.05
  (preliminaries) and 0.02 (design risk), none of them taken of another component. For a
  base cost of at least \<open>2 ^ (- 1000)\<close> each lies within one part in \<open>2 ^ 52\<close> of its
  exact percentage, and their sum, whether exact or added up from left to right in
  binary64, differs from base cost \<times> 0.145 by at most base cost / \<open>2 ^ 53\<close>; it need not
  be equal to it.
\<close>

theorem risk_components_binary64:
  "risk_components_f64 b =
     Inr [(''Contingencies'', round64 (b * round64 0.075)),
          (''Preliminaries'', round64 (b * round64 0.05)),
          (''Design Risk'', round64 (b * round64 0.02))]
   \<and> (2 powi (- 1000) \<le> b \<longrightarrow>
         \<bar>round64 (b * round64 0.075) - b * 0.075\<bar> \<le> b * 0.075 / 2 ^ 52
       \<and> \<bar>round64 (b * round64 0.05) - b * 0.05\<bar> \<le> b * 0.05 / 2 ^ 52
       \<and> \<bar>round64 (b * round64 0.02) - b * 0.02\<bar> \<le> b * 0.02 / 2 ^ 52
       \<and> \<bar>round64 (b * round64 0.075) + round64 (b * round64 0.05)
            + round64 (b * round64 0.02) - b * 0.145\<bar> \<le> b / 2 ^ 53
       \<and> (\<exists>total. risks_f64 b = Inr total \<and> \<bar>total - b * 0.145\<bar> \<le> b / 2 ^ 53))
   \<and> (0.075 + 0.05 + 0.02 :: real) = 0.145"
proof (intro conjI impI)
  show "risk_components_f64 b =
     Inr [(''Contingencies'', round64 (b * round64 0.075)),
          (''Preliminaries'', round64 (b * round64 0.05)),
          (''Design Risk'', round64 (b * round64 0.02))]"
    by (rule risk_components_f64_eq)
  show "(0.075 + 0.05 + 0.02 :: real) = 0.145"
    by simp
next
  assume b: "2 powi (- 1000) \<le> b"
  show "\<bar>round64 (b * round64 0.075) - b * 0.075\<bar> \<le> b * 0.075 / 2 ^ 52"
    and "\<bar>round64 (b * round64 0.05) - b * 0.05\<bar> \<le> b * 0.05 / 2 ^ 52"
    and "\<bar>round64 (b * round64 0.02) - b * 0.02\<bar> \<le> b * 0.02 / 2 ^ 52"
    by (rule risk_component_tolerance [OF b])+
  show "\<bar>round64 (b * round64 0.075) + round64 (b * round64 0.05)
            + round64 (b * round64 0.02) - b * 0.145\<bar> \<le> b / 2 ^ 53"
    by (rule risk_sum_tolerance(1) [OF b])
  from risks_f64_eq [of b] risk_sum_tolerance(2) [OF b]
  show "\<exists>total. risks_f64 b = Inr total \<and> \<bar>total - b * 0.145\<bar> \<le> b / 2 ^ 53"
    by (intro exI conjI)
qed

theorem risk_components_binary64_witness:
  "\<bar>round64 (1000 * round64 0.075) - 1000 * 0.075\<bar> \<le> 1000 * 0.075 / 2 ^ 52
   \<and> (\<exists>total. risks_f64 1000 = Inr total \<and> \<bar>total - 1000 * 0.145\<bar> \<le> 1000 / 2 ^ 53)"
proof -
  have "2 powi (- 1000) \<le> (1000::real)"
    by (simp add: power_int_minus field_simps)
  with risk_components_binary64 [of 1000] show ?thesis
    by (simp only: simp_thms)
qed

text \<open>
  Against claim C5 as it is stated. For the base cost 27141156, which is the base cost of
  the form's defaults with the shape Square, the sum of the three components is the
  double \<^verbatim>\<open>3935467.62\<close>, while the base cost times 0.145 is the double below it,
  \<^verbatim>\<open>3935467.6199999996\<close>; for the base cost 7 the sum is \<^verbatim>\<open>1.0150000000000001\<close> and the
  product \<^verbatim>\<open>1.015\<close>. Rounding the exact sum of the components once gives the same sums, so
  the order of the additions is not what makes the difference.
\<close>

theorem risk_sum_is_not_base_cost_times_0_145:
  "risks_f64 27141156 = Inr (8451352361183478 / 2 ^ 31)
   \<and> round64 (27141156 * round64 0.145) = 8451352361183477 / 2 ^ 31
   \<and> risks_f64 27141156 \<noteq> Inr (round64 (27141156 * round64 0.145))
   \<and> risks_f64 27141156 \<noteq> Inr (27141156 * 0.145)
   \<and> round64 (round64 (27141156 * round64 0.075) + round64 (27141156 * round64 0.05)
              + round64 (27141156 * round64 0.02)) = 8451352361183478 / 2 ^ 31
   \<and> risks_f64 7 = Inr (4571153621781054 / 2 ^ 52)
   \<and> round64 (7 * round64 0.145) = 4571153621781053 / 2 ^ 52
   \<and> risks_f64 7 \<noteq> Inr (round64 (7 * round64 0.145))
   \<and> risks_f64 7 \<noteq> Inr (7 * 0.145)
   \<and> round64 (round64 (7 * round64 0.075) + round64 (7 * round64 0.05)
              + round64 (7 * round64 0.02)) = 4571153621781054 / 2 ^ 52"
  using risks_f64_7 risks_f64_default times_0_145_at_7 times_0_145_at_default
    exact_sum_at_7 exact_sum_at_default
  by simp

end
